theory Spec2Isabelle
  imports Main
begin

section \<open>Inception blocks of tensorhub.layers over an explicit tensor framework\<close>

text \<open>
  The two modules \<^verbatim>\<open>inception_v1.py\<close> and \<^verbatim>\<open>inception_v2.py\<close> define five
  classes. Each one stores a configuration in \<^verbatim>\<open>__init__\<close>, constructs framework
  operators in \<^verbatim>\<open>build\<close> and wires them together in \<^verbatim>\<open>call\<close>. The tensor
  framework itself (convolution, pooling, concatenation, the base class of a layer) is an
  external collaborator: what it computes on tensors is a parameter of the model (a
  \<open>backend\<close>), and its shape rules are given once as a concrete backend.
\<close>

subsection \<open>Errors and their propagation\<close>

datatype error = TypeError | AttributeError | ValueError

definition propagate :: "error + 'a \<Rightarrow> ('a \<Rightarrow> error + 'b) \<Rightarrow> error + 'b" where
  \<comment> \<open>A statement that raises ends the method; otherwise the next statement runs.\<close>
  "propagate r f = (case r of Inl e \<Rightarrow> Inl e | Inr v \<Rightarrow> f v)"

definition truthy :: "string option \<Rightarrow> bool" where
  \<comment> \<open>Python's \<^verbatim>\<open>if name:\<close> for a name that is None or a string.\<close>
  "truthy nm = (case nm of None \<Rightarrow> False | Some s \<Rightarrow> s \<noteq> [])"

subsection \<open>Framework operators\<close>

type_synonym shape = "nat list"

text \<open>
  An operator constructed by \<^verbatim>\<open>keras.layers.Conv2D(filters, kernel_size, activation=,
  strides=, padding=)\<close> or \<^verbatim>\<open>keras.layers.MaxPool2D(pool_size=, strides=, padding=)\<close>.
  Every construction yields a new object (with weights of its own), so an operator
  carries the identity \<open>uid\<close> it received from the framework's allocation counter: two
  operators with equal parameters are still different operators.
\<close>

datatype 'act keras_layer =
    Conv2D (uid: nat) (filters: int) (kernel_size: "nat \<times> nat") (op_activation: 'act)
      (op_strides: int) (op_padding: string)
  | MaxPool2D (uid: nat) (pool_size: "nat \<times> nat") (op_strides: int) (op_padding: string)

definition keras_layers_Conv2D ::
  "int \<Rightarrow> nat \<times> nat \<Rightarrow> 'act \<Rightarrow> int \<Rightarrow> string \<Rightarrow> nat \<Rightarrow> 'act keras_layer \<times> nat" where
  "keras_layers_Conv2D f k a s p next_uid = (Conv2D next_uid f k a s p, Suc next_uid)"

definition keras_layers_MaxPool2D ::
  "nat \<times> nat \<Rightarrow> int \<Rightarrow> string \<Rightarrow> nat \<Rightarrow> 'act keras_layer \<times> nat" where
  "keras_layers_MaxPool2D k s p next_uid = (MaxPool2D next_uid k s p, Suc next_uid)"

text \<open>
  What the framework computes: applying an operator to a tensor, concatenating a list of
  tensors along an axis, and the shape of a tensor. Each may raise. An operator's result
  depends on the operator (its identity stands for its weights) and on the input only.
\<close>

record ('act, 't) backend =
  run_layer :: "'act keras_layer \<Rightarrow> 't \<Rightarrow> error + 't"
  run_concatenate :: "'t list \<Rightarrow> int \<Rightarrow> error + 't"
  tensor_shape :: "'t \<Rightarrow> shape"

definition keras_layers_concatenate ::
  "('act, 't) backend \<Rightarrow> 't list option \<Rightarrow> int \<Rightarrow> error + 't" where
  \<comment> \<open>The functional \<^verbatim>\<open>keras.layers.concatenate(inputs, axis=-1)\<close>: \<^verbatim>\<open>inputs\<close> is a
      required argument (\<open>None\<close> here: the call site passes no list), a call without it
      raises TypeError.\<close>
  "keras_layers_concatenate K inputs axis =
     (case inputs of None \<Rightarrow> Inl TypeError | Some ts \<Rightarrow> run_concatenate K ts axis)"

subsection \<open>Block instances\<close>

text \<open>
  The attributes \<^verbatim>\<open>__init__\<close> assigns are fields; the attributes \<^verbatim>\<open>build\<close> assigns
  live in the instance dictionary \<open>attrs\<close>, keyed by the attribute's name, and hold an
  operator or a tensor. Reading an attribute that was never assigned raises
  AttributeError. Classes deriving from \<^verbatim>\<open>keras.layers.Layer\<close> also have the base
  class's \<open>name\<close> and \<open>built\<close> flag.
\<close>

datatype ('act, 't) attr = Layer "'act keras_layer" | Tensor 't

record ('act, 't) block =
  num_filters :: int
  act :: 'act
  strides :: int
  padding :: string
  attrs :: "string \<rightharpoonup> ('act, 't) attr"

record ('act, 't) keras_block = "('act, 't) block" +
  name :: "string option"
  built :: bool

definition set_attr ::
  "('act, 't, 'm) block_scheme \<Rightarrow> string \<Rightarrow> ('act, 't) attr \<Rightarrow> ('act, 't, 'm) block_scheme" where
  "set_attr self a v = self\<lparr>attrs := (attrs self)(a \<mapsto> v)\<rparr>"

definition call_attr ::
  "('act, 't) backend \<Rightarrow> ('act, 't, 'm) block_scheme \<Rightarrow> string \<Rightarrow> 't \<Rightarrow> error + 't" where
  \<comment> \<open>\<^verbatim>\<open>self.a(x)\<close>: a missing attribute raises AttributeError, a tensor is not callable.\<close>
  "call_attr K self a x =
     (case attrs self a of
        None \<Rightarrow> Inl AttributeError
      | Some (Layer l) \<Rightarrow> run_layer K l x
      | Some (Tensor t) \<Rightarrow> Inl TypeError)"

definition call_attr_list ::
  "('act, 't) backend \<Rightarrow> ('act, 't, 'm) block_scheme \<Rightarrow> string \<Rightarrow> 't list \<Rightarrow> int option
   \<Rightarrow> error + 't" where
  \<comment> \<open>\<^verbatim>\<open>self.a([t1, ..., tn])\<close> or \<^verbatim>\<open>self.a([t1, ..., tn], axis=k)\<close>: a missing
      attribute raises AttributeError, a tensor is not callable, and a convolution or
      pooling operator rejects a list of tensors.\<close>
  "call_attr_list K self a xs axis =
     (case attrs self a of
        None \<Rightarrow> Inl AttributeError
      | Some (Layer l) \<Rightarrow> Inl ValueError
      | Some (Tensor t) \<Rightarrow> Inl TypeError)"

definition keras_Layer_invoke ::
  "('act, 't) backend
   \<Rightarrow> (('act, 't) backend \<Rightarrow> ('act, 't) keras_block \<Rightarrow> shape \<Rightarrow> nat
        \<Rightarrow> (error + unit) \<times> ('act, 't) keras_block \<times> nat)
   \<Rightarrow> (('act, 't) backend \<Rightarrow> ('act, 't) keras_block \<Rightarrow> 't \<Rightarrow> error + 't)
   \<Rightarrow> ('act, 't) keras_block \<Rightarrow> 't \<Rightarrow> nat
   \<Rightarrow> (error + 't) \<times> ('act, 't) keras_block \<times> nat" where
  \<comment> \<open>Modelled from the spec: the base class \<^verbatim>\<open>keras.layers.Layer\<close> is not under
      src/. Invoking a layer, \<^verbatim>\<open>layer(x)\<close>, builds it lazily: on an instance that is
      not built yet it runs \<^verbatim>\<open>build\<close> with the input's shape and marks the instance
      built when \<^verbatim>\<open>build\<close> returns (an exception of \<^verbatim>\<open>build\<close> propagates and leaves
      the flag as it was, with the attributes assigned so far); then it runs
      \<^verbatim>\<open>call\<close>.\<close>
  "keras_Layer_invoke K build call self x u =
     (if built self then (call K self x, self, u)
      else
        (case build K self (tensor_shape K x) u of
           (Inl e, self', u') \<Rightarrow> (Inl e, self', u')
         | (Inr _, self', u') \<Rightarrow>
             (call K (self'\<lparr>built := True\<rparr>) x, self'\<lparr>built := True\<rparr>, u')))"

subsection \<open>inception\_v1.BasicLayer\<close>

definition v1_BasicLayer_init :: "'act \<Rightarrow> string option \<Rightarrow> ('act, 't) keras_block" where
  "v1_BasicLayer_init activation nm =
     \<lparr>num_filters = 64, act = activation, strides = 1, padding = ''same'',
      attrs = Map.empty, name = (if truthy nm then nm else None), built = False\<rparr>"

definition v1_BasicLayer_build ::
  "('act, 't) backend \<Rightarrow> ('act, 't) keras_block \<Rightarrow> shape \<Rightarrow> nat
   \<Rightarrow> (error + unit) \<times> ('act, 't) keras_block \<times> nat" where
  "v1_BasicLayer_build K self input_shape u =
     (let (l, u) = keras_layers_Conv2D (num_filters self) (1, 1) (act self) (strides self) (padding self) u;
          self = set_attr self ''conv_block_a'' (Layer l);
          (l, u) = keras_layers_Conv2D (num_filters self) (3, 3) (act self) (strides self) (padding self) u;
          self = set_attr self ''conv_block_b'' (Layer l);
          (l, u) = keras_layers_Conv2D (num_filters self) (5, 5) (act self) (strides self) (padding self) u;
          self = set_attr self ''conv_block_c'' (Layer l);
          (l, u) = keras_layers_MaxPool2D (3, 3) (strides self) (padding self) u;
          self = set_attr self ''maxpool_block'' (Layer l)
      in case keras_layers_concatenate K None (- 1) of
           Inl e \<Rightarrow> (Inl e, self, u)
         | Inr t \<Rightarrow> (Inr (), set_attr self ''concatenate'' (Tensor t), u))"

definition v1_BasicLayer_branches ::
  "('act, 't) backend \<Rightarrow> ('act, 't) keras_block \<Rightarrow> 't \<Rightarrow> error + 't list" where
  \<comment> \<open>Lines 61 to 68 of \<^verbatim>\<open>call\<close> and the list literal of line 70.\<close>
  "v1_BasicLayer_branches K self x =
     propagate (call_attr K self ''conv_block_a'' x) (\<lambda>out_a.
     propagate (call_attr K self ''conv_block_b'' x) (\<lambda>out_b.
     propagate (call_attr K self ''conv_block_a'' x) (\<lambda>out_c.
     propagate (call_attr K self ''maxpool_block'' x) (\<lambda>out_d.
     Inr [out_a, out_b, out_c, out_d]))))"

definition v1_BasicLayer_call ::
  "('act, 't) backend \<Rightarrow> ('act, 't) keras_block \<Rightarrow> 't \<Rightarrow> error + 't" where
  "v1_BasicLayer_call K self x =
     propagate (v1_BasicLayer_branches K self x) (\<lambda>outs.
     call_attr_list K self ''concatenate'' outs None)"

definition v1_BasicLayer_invoke ::
  "('act, 't) backend \<Rightarrow> ('act, 't) keras_block \<Rightarrow> 't \<Rightarrow> nat
   \<Rightarrow> (error + 't) \<times> ('act, 't) keras_block \<times> nat" where
  "v1_BasicLayer_invoke K = keras_Layer_invoke K v1_BasicLayer_build v1_BasicLayer_call"

subsection \<open>inception\_v1.ReductionLayer\<close>

text \<open>
  The class statement names no base class, so \<^verbatim>\<open>super(ReductionLayer, self).__init__\<close>
  is \<^verbatim>\<open>object.__init__\<close>, which raises TypeError when it is given \<^verbatim>\<open>name=name\<close>;
  an instance has no \<open>built\<close> flag and nothing runs \<^verbatim>\<open>build\<close> for it.
\<close>

definition v1_ReductionLayer_init :: "'act \<Rightarrow> string option \<Rightarrow> error + ('act, 't) block" where
  "v1_ReductionLayer_init activation nm =
     (if truthy nm then Inl TypeError
      else Inr \<lparr>num_filters = 64, act = activation, strides = 1, padding = ''same'',
                attrs = Map.empty\<rparr>)"

definition v1_ReductionLayer_build ::
  "('act, 't) backend \<Rightarrow> ('act, 't) block \<Rightarrow> shape \<Rightarrow> nat
   \<Rightarrow> (error + unit) \<times> ('act, 't) block \<times> nat" where
  "v1_ReductionLayer_build K self input_shape u =
     (let (l, u) = keras_layers_Conv2D (num_filters self) (1, 1) (act self) (strides self * strides self) (padding self) u;
          self = set_attr self ''conv_1a'' (Layer l);
          (l, u) = keras_layers_Conv2D (num_filters self) (1, 1) (act self) (strides self) (padding self) u;
          self = set_attr self ''conv_1b'' (Layer l);
          (l, u) = keras_layers_Conv2D (num_filters self) (1, 1) (act self) (strides self) (padding self) u;
          self = set_attr self ''conv_1c'' (Layer l);
          (l, u) = keras_layers_Conv2D (num_filters self) (1, 1) (act self) (strides self) (padding self) u;
          self = set_attr self ''conv_1d'' (Layer l);
          (l, u) = keras_layers_Conv2D (num_filters self) (3, 3) (act self) (strides self) (padding self) u;
          self = set_attr self ''conv_3'' (Layer l);
          (l, u) = keras_layers_Conv2D (num_filters self) (5, 5) (act self) (strides self) (padding self) u;
          self = set_attr self ''conv_5'' (Layer l);
          (l, u) = keras_layers_MaxPool2D (3, 3) (strides self) (padding self) u;
          self = set_attr self ''maxpool_block'' (Layer l)
      in case keras_layers_concatenate K None (- 1) of
           Inl e \<Rightarrow> (Inl e, self, u)
         | Inr t \<Rightarrow> (Inr (), set_attr self ''concatenate'' (Tensor t), u))"

definition v1_ReductionLayer_branches ::
  "('act, 't) backend \<Rightarrow> ('act, 't) block \<Rightarrow> 't \<Rightarrow> error + 't list" where
  \<comment> \<open>Lines 117 to 127 of \<^verbatim>\<open>call\<close> and the list literal of line 129.\<close>
  "v1_ReductionLayer_branches K self x =
     propagate (call_attr K self ''conv_1a'' x) (\<lambda>out_a.
     propagate (call_attr K self ''conv_1b'' x) (\<lambda>out_b_inter.
     propagate (call_attr K self ''conv_3'' out_b_inter) (\<lambda>out_b.
     propagate (call_attr K self ''conv_1c'' x) (\<lambda>out_c_inter.
     propagate (call_attr K self ''conv_5'' out_c_inter) (\<lambda>out_c.
     propagate (call_attr K self ''maxpool_block'' x) (\<lambda>out_d_inter.
     propagate (call_attr K self ''conv_1d'' out_d_inter) (\<lambda>out_d.
     Inr [out_a, out_b, out_c, out_d])))))))"

definition v1_ReductionLayer_call ::
  "('act, 't) backend \<Rightarrow> ('act, 't) block \<Rightarrow> 't \<Rightarrow> error + 't" where
  "v1_ReductionLayer_call K self x =
     propagate (v1_ReductionLayer_branches K self x) (\<lambda>outs.
     call_attr_list K self ''concatenate'' outs None)"

definition v1_ReductionLayer_invoke ::
  "('act, 't) backend \<Rightarrow> ('act, 't) block \<Rightarrow> 't \<Rightarrow> nat
   \<Rightarrow> (error + 't) \<times> ('act, 't) block \<times> nat" where
  \<comment> \<open>\<^verbatim>\<open>layer(x)\<close> on an instance of a class that defines no \<^verbatim>\<open>__call__\<close> and names
      no base class: Python raises TypeError (the object is not callable). Neither
      \<^verbatim>\<open>build\<close> nor \<^verbatim>\<open>call\<close> runs; the instance and the allocation counter stay as
      they are.\<close>
  "v1_ReductionLayer_invoke K self x u = (Inl TypeError, self, u)"

subsection \<open>inception\_v2.BasicLayer\<close>

definition v2_BasicLayer_init :: "int \<Rightarrow> 'act \<Rightarrow> string option \<Rightarrow> ('act, 't) keras_block" where
  "v2_BasicLayer_init n activation nm =
     \<lparr>num_filters = n, act = activation, strides = 1, padding = ''same'',
      attrs = Map.empty, name = (if truthy nm then nm else None), built = False\<rparr>"

definition v2_BasicLayer_build ::
  "('act, 't) backend \<Rightarrow> ('act, 't) keras_block \<Rightarrow> shape \<Rightarrow> nat
   \<Rightarrow> (error + unit) \<times> ('act, 't) keras_block \<times> nat" where
  "v2_BasicLayer_build K self input_shape u =
     (let (l, u) = keras_layers_Conv2D (num_filters self) (1, 1) (act self) (strides self * strides self) (padding self) u;
          self = set_attr self ''conv_1a'' (Layer l);
          (l, u) = keras_layers_Conv2D (num_filters self) (1, 1) (act self) (strides self) (padding self) u;
          self = set_attr self ''conv_1b'' (Layer l);
          (l, u) = keras_layers_Conv2D (num_filters self) (3, 3) (act self) (strides self) (padding self) u;
          self = set_attr self ''conv_3b'' (Layer l);
          (l, u) = keras_layers_Conv2D (num_filters self) (1, 1) (act self) (strides self) (padding self) u;
          self = set_attr self ''conv_1c'' (Layer l);
          (l, u) = keras_layers_Conv2D (num_filters self) (3, 3) (act self) (strides self) (padding self) u;
          self = set_attr self ''conv_3c1'' (Layer l);
          (l, u) = keras_layers_Conv2D (num_filters self) (3, 3) (act self) (strides self) (padding self) u;
          self = set_attr self ''conv_3c2'' (Layer l);
          (l, u) = keras_layers_Conv2D (num_filters self) (1, 1) (act self) (strides self) (padding self) u;
          self = set_attr self ''conv_1d'' (Layer l);
          (l, u) = keras_layers_MaxPool2D (3, 3) (strides self) (padding self) u;
          self = set_attr self ''maxpool_layer'' (Layer l)
      in case keras_layers_concatenate K None (- 1) of
           Inl e \<Rightarrow> (Inl e, self, u)
         | Inr t \<Rightarrow> (Inr (), set_attr self ''concat_layer'' (Tensor t), u))"

definition v2_BasicLayer_branches ::
  "('act, 't) backend \<Rightarrow> ('act, 't) keras_block \<Rightarrow> 't \<Rightarrow> error + 't list" where
  \<comment> \<open>Lines 66 to 77 of \<^verbatim>\<open>call\<close> and the list literal of line 79.\<close>
  "v2_BasicLayer_branches K self x =
     propagate (call_attr K self ''conv_1a'' x) (\<lambda>out_a.
     propagate (call_attr K self ''conv_1b'' x) (\<lambda>out_b_inter.
     propagate (call_attr K self ''conv_3b'' out_b_inter) (\<lambda>out_b.
     propagate (call_attr K self ''conv_1c'' x) (\<lambda>out_c_inter.
     propagate (call_attr K self ''conv_3c1'' out_c_inter) (\<lambda>out_c_inter.
     propagate (call_attr K self ''conv_3c2'' out_c_inter) (\<lambda>out_c.
     propagate (call_attr K self ''maxpool_layer'' x) (\<lambda>out_d_inter.
     propagate (call_attr K self ''conv_1d'' out_d_inter) (\<lambda>out_d.
     Inr [out_a, out_b, out_c, out_d]))))))))"

definition v2_BasicLayer_call ::
  "('act, 't) backend \<Rightarrow> ('act, 't) keras_block \<Rightarrow> 't \<Rightarrow> error + 't" where
  "v2_BasicLayer_call K self x =
     propagate (v2_BasicLayer_branches K self x) (\<lambda>outs.
     call_attr_list K self ''concat_layer'' outs (Some (- 1)))"

definition v2_BasicLayer_invoke ::
  "('act, 't) backend \<Rightarrow> ('act, 't) keras_block \<Rightarrow> 't \<Rightarrow> nat
   \<Rightarrow> (error + 't) \<times> ('act, 't) keras_block \<times> nat" where
  "v2_BasicLayer_invoke K = keras_Layer_invoke K v2_BasicLayer_build v2_BasicLayer_call"

subsection \<open>inception\_v2.DeepLayer\<close>

definition v2_DeepLayer_init :: "int \<Rightarrow> 'act \<Rightarrow> string option \<Rightarrow> ('act, 't) keras_block" where
  "v2_DeepLayer_init n activation nm =
     \<lparr>num_filters = n, act = activation, strides = 1, padding = ''same'',
      attrs = Map.empty, name = (if truthy nm then nm else None), built = False\<rparr>"

definition v2_DeepLayer_build ::
  "('act, 't) backend \<Rightarrow> ('act, 't) keras_block \<Rightarrow> shape \<Rightarrow> nat
   \<Rightarrow> (error + unit) \<times> ('act, 't) keras_block \<times> nat" where
  "v2_DeepLayer_build K self input_shape u =
     (let (l, u) = keras_layers_Conv2D (num_filters self) (1, 1) (act self) (strides self * strides self) (padding self) u;
          self = set_attr self ''conv_1a'' (Layer l);
          (l, u) = keras_layers_Conv2D (num_filters self) (1, 1) (act self) (strides self) (padding self) u;
          self = set_attr self ''conv_1b'' (Layer l);
          (l, u) = keras_layers_Conv2D (num_filters self) (1, 3) (act self) (strides self) (padding self) u;
          self = set_attr self ''conv_1_3b'' (Layer l);
          (l, u) = keras_layers_Conv2D (num_filters self) (3, 1) (act self) (strides self) (padding self) u;
          self = set_attr self ''conv_3_1b'' (Layer l);
          (l, u) = keras_layers_Conv2D (num_filters self) (1, 1) (act self) (strides self) (padding self) u;
          self = set_attr self ''conv_1c'' (Layer l);
          (l, u) = keras_layers_Conv2D (num_filters self) (1, 3) (act self) (strides self) (padding self) u;
          self = set_attr self ''conv_1_3c1'' (Layer l);
          (l, u) = keras_layers_Conv2D (num_filters self) (3, 1) (act self) (strides self) (padding self) u;
          self = set_attr self ''conv_3_1c1'' (Layer l);
          (l, u) = keras_layers_Conv2D (num_filters self) (1, 3) (act self) (strides self) (padding self) u;
          self = set_attr self ''conv_1_3c2'' (Layer l);
          (l, u) = keras_layers_Conv2D (num_filters self) (3, 1) (act self) (strides self) (padding self) u;
          self = set_attr self ''conv_3_1c2'' (Layer l);
          (l, u) = keras_layers_Conv2D (num_filters self) (1, 1) (act self) (strides self) (padding self) u;
          self = set_attr self ''conv_1d'' (Layer l);
          (l, u) = keras_layers_MaxPool2D (3, 3) (strides self) (padding self) u;
          self = set_attr self ''maxpool_layer'' (Layer l)
      in (Inr (), self, u))"

definition v2_DeepLayer_branches ::
  "('act, 't) backend \<Rightarrow> ('act, 't) keras_block \<Rightarrow> 't \<Rightarrow> error + 't list" where
  \<comment> \<open>Lines 130 to 144 of \<^verbatim>\<open>call\<close> and the list literal of line 146.\<close>
  "v2_DeepLayer_branches K self x =
     propagate (call_attr K self ''conv_1a'' x) (\<lambda>out_a.
     propagate (call_attr K self ''conv_1b'' x) (\<lambda>out_b_inter.
     propagate (call_attr K self ''conv_1_3b'' out_b_inter) (\<lambda>out_b_inter.
     propagate (call_attr K self ''conv_3_1b'' out_b_inter) (\<lambda>out_b.
     propagate (call_attr K self ''conv_1c'' x) (\<lambda>out_c_inter.
     propagate (call_attr K self ''conv_1_3c1'' out_c_inter) (\<lambda>out_c_inter.
     propagate (call_attr K self ''conv_3_1c1'' out_c_inter) (\<lambda>out_c_inter.
     propagate (call_attr K self ''conv_1_3c2'' out_c_inter) (\<lambda>out_c_inter.
     propagate (call_attr K self ''conv_3_1c2'' out_c_inter) (\<lambda>out_c.
     propagate (call_attr K self ''maxpool_layer'' x) (\<lambda>out_d_inter.
     propagate (call_attr K self ''conv_1d'' out_d_inter) (\<lambda>out_d.
     Inr [out_a, out_b, out_c, out_d])))))))))))"

definition v2_DeepLayer_call ::
  "('act, 't) backend \<Rightarrow> ('act, 't) keras_block \<Rightarrow> 't \<Rightarrow> error + 't" where
  "v2_DeepLayer_call K self x =
     propagate (v2_DeepLayer_branches K self x) (\<lambda>outs.
     keras_layers_concatenate K (Some outs) (- 1))"

definition v2_DeepLayer_invoke ::
  "('act, 't) backend \<Rightarrow> ('act, 't) keras_block \<Rightarrow> 't \<Rightarrow> nat
   \<Rightarrow> (error + 't) \<times> ('act, 't) keras_block \<times> nat" where
  "v2_DeepLayer_invoke K = keras_Layer_invoke K v2_DeepLayer_build v2_DeepLayer_call"

subsection \<open>inception\_v2.WideLayer\<close>

definition v2_WideLayer_init :: "int \<Rightarrow> 'act \<Rightarrow> string option \<Rightarrow> ('act, 't) keras_block" where
  "v2_WideLayer_init n activation nm =
     \<lparr>num_filters = n, act = activation, strides = 1, padding = ''same'',
      attrs = Map.empty, name = (if truthy nm then nm else None), built = False\<rparr>"

definition v2_WideLayer_build ::
  "('act, 't) backend \<Rightarrow> ('act, 't) keras_block \<Rightarrow> shape \<Rightarrow> nat
   \<Rightarrow> (error + unit) \<times> ('act, 't) keras_block \<times> nat" where
  "v2_WideLayer_build K self input_shape u =
     (let (l, u) = keras_layers_Conv2D (num_filters self) (1, 1) (act self) (strides self * strides self) (padding self) u;
          self = set_attr self ''conv_1a'' (Layer l);
          (l, u) = keras_layers_Conv2D (num_filters self) (1, 1) (act self) (strides self) (padding self) u;
          self = set_attr self ''conv_1b'' (Layer l);
          (l, u) = keras_layers_Conv2D (num_filters self) (1, 3) (act self) (strides self) (padding self) u;
          self = set_attr self ''conv_1_3b'' (Layer l);
          (l, u) = keras_layers_Conv2D (num_filters self) (3, 1) (act self) (strides self) (padding self) u;
          self = set_attr self ''conv_3_1b'' (Layer l);
          (l, u) = keras_layers_Conv2D (num_filters self) (1, 1) (act self) (strides self) (padding self) u;
          self = set_attr self ''conv_1c'' (Layer l);
          (l, u) = keras_layers_Conv2D (num_filters self) (3, 3) (act self) (strides self) (padding self) u;
          self = set_attr self ''conv_3c'' (Layer l);
          (l, u) = keras_layers_Conv2D (num_filters self) (1, 3) (act self) (strides self) (padding self) u;
          self = set_attr self ''conv_1_3c'' (Layer l);
          (l, u) = keras_layers_Conv2D (num_filters self) (3, 1) (act self) (strides self) (padding self) u;
          self = set_attr self ''conv_3_1c'' (Layer l);
          (l, u) = keras_layers_Conv2D (num_filters self) (1, 1) (act self) (strides self) (padding self) u;
          self = set_attr self ''conv_1d'' (Layer l);
          (l, u) = keras_layers_MaxPool2D (3, 3) (strides self) (padding self) u;
          self = set_attr self ''maxpool_layer'' (Layer l)
      in case keras_layers_concatenate K None (- 1) of
           Inl e \<Rightarrow> (Inl e, self, u)
         | Inr t \<Rightarrow> (Inr (), set_attr self ''concat_layer'' (Tensor t), u))"

definition v2_WideLayer_branches ::
  "('act, 't) backend \<Rightarrow> ('act, 't) keras_block \<Rightarrow> 't \<Rightarrow> error + 't list" where
  \<comment> \<open>Lines 197 to 210 of \<^verbatim>\<open>call\<close> and the list literal of line 212.\<close>
  "v2_WideLayer_branches K self x =
     propagate (call_attr K self ''conv_1a'' x) (\<lambda>out_a.
     propagate (call_attr K self ''conv_1b'' x) (\<lambda>out_b_inter.
     propagate (call_attr K self ''conv_1_3b'' out_b_inter) (\<lambda>out_b1.
     propagate (call_attr K self ''conv_3_1b'' out_b_inter) (\<lambda>out_b2.
     propagate (call_attr K self ''conv_1c'' x) (\<lambda>out_c_inter.
     propagate (call_attr K self ''conv_3c'' out_c_inter) (\<lambda>out_c_inter.
     propagate (call_attr K self ''conv_1_3c'' out_c_inter) (\<lambda>out_c1.
     propagate (call_attr K self ''conv_3_1c'' out_c_inter) (\<lambda>out_c2.
     propagate (call_attr K self ''maxpool_layer'' x) (\<lambda>out_d_inter.
     propagate (call_attr K self ''conv_1d'' out_d_inter) (\<lambda>out_d.
     Inr [out_a, out_b1, out_b2, out_c1, out_c1, out_d]))))))))))"

definition v2_WideLayer_call ::
  "('act, 't) backend \<Rightarrow> ('act, 't) keras_block \<Rightarrow> 't \<Rightarrow> error + 't" where
  "v2_WideLayer_call K self x =
     propagate (v2_WideLayer_branches K self x) (\<lambda>outs.
     call_attr_list K self ''concat_layer'' outs (Some (- 1)))"

definition v2_WideLayer_invoke ::
  "('act, 't) backend \<Rightarrow> ('act, 't) keras_block \<Rightarrow> 't \<Rightarrow> nat
   \<Rightarrow> (error + 't) \<times> ('act, 't) keras_block \<times> nat" where
  "v2_WideLayer_invoke K = keras_Layer_invoke K v2_WideLayer_build v2_WideLayer_call"

subsection \<open>The framework's shape rules\<close>

text \<open>
  Tensors abstracted to their shapes \<open>[batch, height, width, channels]\<close>. A convolution
  or pooling window of extent \<open>k\<close> moved with stride \<open>s\<close> over \<open>n\<close> positions yields
  \<open>ceil (n / s)\<close> positions under "same" padding and \<open>floor ((n - k) / s) + 1\<close> under
  "valid" padding. A convolution yields as many channels as it has filters, a pooling
  keeps the channels of its input, and a concatenation adds up the sizes along its axis
  and requires the inputs to agree on every other axis.
\<close>

definition conv_output_length :: "nat \<Rightarrow> nat \<Rightarrow> string \<Rightarrow> int \<Rightarrow> nat option" where
  "conv_output_length n k p s =
     (if s \<le> 0 \<or> k = 0 then None
      else if p = ''same'' then Some ((n + nat s - 1) div nat s)
      else if p = ''valid'' then (if n < k then None else Some ((n - k) div nat s + 1))
      else None)"

definition window_output_shape ::
  "nat \<times> nat \<Rightarrow> int \<Rightarrow> string \<Rightarrow> nat \<Rightarrow> nat \<Rightarrow> nat \<Rightarrow> nat \<Rightarrow> error + shape" where
  "window_output_shape k s p b h w c =
     (case (conv_output_length h (fst k) p s, conv_output_length w (snd k) p s) of
        (Some h', Some w') \<Rightarrow> Inr [b, h', w', c]
      | _ \<Rightarrow> Inl ValueError)"

definition keras_shape_run_layer :: "'act keras_layer \<Rightarrow> shape \<Rightarrow> error + shape" where
  \<comment> \<open>Modelled from the spec: the framework's operators are not under src/. Section 6,
      section 8 and the glossary give their contract on shapes: a rank-4 input, as many
      output channels as filters, and unchanged height and width under "same" padding
      with stride 1. That a pooling keeps the channels of its input, and the sizes for
      other strides and for "valid" padding, are the framework's own shape rules.\<close>
  "keras_shape_run_layer l sh =
     (case sh of
        [b, h, w, c] \<Rightarrow>
          (case l of
             Conv2D _ f k _ s p \<Rightarrow>
               (if f \<le> 0 then Inl ValueError else window_output_shape k s p b h w (nat f))
           | MaxPool2D _ k s p \<Rightarrow> window_output_shape k s p b h w c)
      | _ \<Rightarrow> Inl ValueError)"

definition same_except :: "nat \<Rightarrow> shape \<Rightarrow> shape \<Rightarrow> bool" where
  "same_except i s t = (length s = length t \<and> s[i := 0] = t[i := 0])"

definition keras_shape_concatenate :: "shape list \<Rightarrow> int \<Rightarrow> error + shape" where
  \<comment> \<open>Modelled from the spec: the concatenation primitive of section 6, on shapes; a
      negative axis counts from the last one.\<close>
  "keras_shape_concatenate shs axis =
     (case shs of
        [] \<Rightarrow> Inl ValueError
      | sh # rest \<Rightarrow>
          (let r = int (length sh); ax = (if axis < 0 then axis + r else axis)
           in if ax < 0 \<or> r \<le> ax then Inl ValueError
              else if list_all (same_except (nat ax) sh) rest
              then Inr (sh[nat ax := sum_list (map (\<lambda>t. t ! nat ax) shs)])
              else Inl ValueError))"

definition keras_shapes :: "('act, shape) backend" where
  "keras_shapes =
     \<lparr>run_layer = keras_shape_run_layer, run_concatenate = keras_shape_concatenate,
      tensor_shape = (\<lambda>sh. sh)\<rparr>"

subsection \<open>Symbolic tensors\<close>

text \<open>
  A symbolic tensor records how it was computed: the block's input, an operator applied
  to a tensor, or a concatenation. Over this backend a forward pass returns its own
  dataflow graph, and \<open>graph_shape\<close> infers the shape of a graph by the shape rules.
\<close>

datatype 'act graph =
    Input shape
  | Apply "'act keras_layer" "'act graph"
  | Concat "'act graph list" int

fun collect :: "(error + 'a) list \<Rightarrow> error + 'a list" where
  "collect [] = Inr []"
| "collect (r # rs) = propagate r (\<lambda>v. propagate (collect rs) (\<lambda>vs. Inr (v # vs)))"

fun graph_shape :: "'act graph \<Rightarrow> error + shape" where
  "graph_shape (Input sh) = Inr sh"
| "graph_shape (Apply l g) = propagate (graph_shape g) (keras_shape_run_layer l)"
| "graph_shape (Concat gs axis) =
     propagate (collect (map graph_shape gs)) (\<lambda>shs. keras_shape_concatenate shs axis)"

definition keras_graphs :: "('act, 'act graph) backend" where
  "keras_graphs =
     \<lparr>run_layer = (\<lambda>l g. Inr (Apply l g)),
      run_concatenate = (\<lambda>gs axis. Inr (Concat gs axis)),
      tensor_shape = (\<lambda>g. case graph_shape g of Inl _ \<Rightarrow> [] | Inr sh \<Rightarrow> sh)\<rparr>"

subsection \<open>Invoking a block several times\<close>

fun invoke_repeat ::
  "('s \<Rightarrow> 't \<Rightarrow> nat \<Rightarrow> (error + 't) \<times> 's \<times> nat) \<Rightarrow> nat \<Rightarrow> 's \<Rightarrow> 't \<Rightarrow> nat
   \<Rightarrow> (error + 't) list \<times> 's \<times> nat" where
  \<comment> \<open>A caller that invokes the same instance \<open>n\<close> times on the same input, catching
      what an invocation raises: the results in order, the instance and the allocation
      counter afterwards.\<close>
  "invoke_repeat f 0 self x u = ([], self, u)"
| "invoke_repeat f (Suc n) self x u =
     (case f self x u of
        (r, self', u') \<Rightarrow>
          (case invoke_repeat f n self' x u' of
             (rs, self'', u'') \<Rightarrow> (r # rs, self'', u'')))"

section \<open>What build leaves behind\<close>

text \<open>
  Each \<^verbatim>\<open>build\<close> evaluated on an arbitrary instance: the outcome, the attributes it has
  assigned (every operator with the identity it received) and the allocation counter.
\<close>

lemmas build_defs = keras_layers_Conv2D_def keras_layers_MaxPool2D_def
  keras_layers_concatenate_def set_attr_def

lemma uid_offsets:
  "u + 3 = Suc (Suc (Suc u))"
  "u + 4 = Suc (Suc (Suc (Suc u)))"
  "u + 5 = Suc (Suc (Suc (Suc (Suc u))))"
  "u + 6 = Suc (Suc (Suc (Suc (Suc (Suc u)))))"
  "u + 7 = Suc (Suc (Suc (Suc (Suc (Suc (Suc u))))))"
  "u + 8 = Suc (Suc (Suc (Suc (Suc (Suc (Suc (Suc u)))))))"
  "u + 9 = Suc (Suc (Suc (Suc (Suc (Suc (Suc (Suc (Suc u))))))))"
  "u + 10 = Suc (Suc (Suc (Suc (Suc (Suc (Suc (Suc (Suc (Suc u)))))))))"
  "u + 11 = Suc (Suc (Suc (Suc (Suc (Suc (Suc (Suc (Suc (Suc (Suc u))))))))))"
  by simp_all

lemma v1_BasicLayer_build_eval:
  "v1_BasicLayer_build K self sh u =
     (Inl TypeError,
      self\<lparr>attrs := (attrs self)
        (''conv_block_a'' \<mapsto> Layer (Conv2D u (num_filters self) (1, 1) (act self) (strides self) (padding self)),
         ''conv_block_b'' \<mapsto> Layer (Conv2D (u + 1) (num_filters self) (3, 3) (act self) (strides self) (padding self)),
         ''conv_block_c'' \<mapsto> Layer (Conv2D (u + 2) (num_filters self) (5, 5) (act self) (strides self) (padding self)),
         ''maxpool_block'' \<mapsto> Layer (MaxPool2D (u + 3) (3, 3) (strides self) (padding self)))\<rparr>,
      u + 4)"
  by (simp add: v1_BasicLayer_build_def build_defs uid_offsets)

lemma v1_ReductionLayer_build_eval:
  "v1_ReductionLayer_build K self sh u =
     (Inl TypeError,
      self\<lparr>attrs := (attrs self)
        (''conv_1a'' \<mapsto> Layer (Conv2D u (num_filters self) (1, 1) (act self) (strides self * strides self) (padding self)),
         ''conv_1b'' \<mapsto> Layer (Conv2D (u + 1) (num_filters self) (1, 1) (act self) (strides self) (padding self)),
         ''conv_1c'' \<mapsto> Layer (Conv2D (u + 2) (num_filters self) (1, 1) (act self) (strides self) (padding self)),
         ''conv_1d'' \<mapsto> Layer (Conv2D (u + 3) (num_filters self) (1, 1) (act self) (strides self) (padding self)),
         ''conv_3'' \<mapsto> Layer (Conv2D (u + 4) (num_filters self) (3, 3) (act self) (strides self) (padding self)),
         ''conv_5'' \<mapsto> Layer (Conv2D (u + 5) (num_filters self) (5, 5) (act self) (strides self) (padding self)),
         ''maxpool_block'' \<mapsto> Layer (MaxPool2D (u + 6) (3, 3) (strides self) (padding self)))\<rparr>,
      u + 7)"
  by (simp add: v1_ReductionLayer_build_def build_defs uid_offsets)

lemma v2_BasicLayer_build_eval:
  "v2_BasicLayer_build K self sh u =
     (Inl TypeError,
      self\<lparr>attrs := (attrs self)
        (''conv_1a'' \<mapsto> Layer (Conv2D u (num_filters self) (1, 1) (act self) (strides self * strides self) (padding self)),
         ''conv_1b'' \<mapsto> Layer (Conv2D (u + 1) (num_filters self) (1, 1) (act self) (strides self) (padding self)),
         ''conv_3b'' \<mapsto> Layer (Conv2D (u + 2) (num_filters self) (3, 3) (act self) (strides self) (padding self)),
         ''conv_1c'' \<mapsto> Layer (Conv2D (u + 3) (num_filters self) (1, 1) (act self) (strides self) (padding self)),
         ''conv_3c1'' \<mapsto> Layer (Conv2D (u + 4) (num_filters self) (3, 3) (act self) (strides self) (padding self)),
         ''conv_3c2'' \<mapsto> Layer (Conv2D (u + 5) (num_filters self) (3, 3) (act self) (strides self) (padding self)),
         ''conv_1d'' \<mapsto> Layer (Conv2D (u + 6) (num_filters self) (1, 1) (act self) (strides self) (padding self)),
         ''maxpool_layer'' \<mapsto> Layer (MaxPool2D (u + 7) (3, 3) (strides self) (padding self)))\<rparr>,
      u + 8)"
  by (simp add: v2_BasicLayer_build_def build_defs uid_offsets)

lemma v2_DeepLayer_build_eval:
  "v2_DeepLayer_build K self sh u =
     (Inr (),
      self\<lparr>attrs := (attrs self)
        (''conv_1a'' \<mapsto> Layer (Conv2D u (num_filters self) (1, 1) (act self) (strides self * strides self) (padding self)),
         ''conv_1b'' \<mapsto> Layer (Conv2D (u + 1) (num_filters self) (1, 1) (act self) (strides self) (padding self)),
         ''conv_1_3b'' \<mapsto> Layer (Conv2D (u + 2) (num_filters self) (1, 3) (act self) (strides self) (padding self)),
         ''conv_3_1b'' \<mapsto> Layer (Conv2D (u + 3) (num_filters self) (3, 1) (act self) (strides self) (padding self)),
         ''conv_1c'' \<mapsto> Layer (Conv2D (u + 4) (num_filters self) (1, 1) (act self) (strides self) (padding self)),
         ''conv_1_3c1'' \<mapsto> Layer (Conv2D (u + 5) (num_filters self) (1, 3) (act self) (strides self) (padding self)),
         ''conv_3_1c1'' \<mapsto> Layer (Conv2D (u + 6) (num_filters self) (3, 1) (act self) (strides self) (padding self)),
         ''conv_1_3c2'' \<mapsto> Layer (Conv2D (u + 7) (num_filters self) (1, 3) (act self) (strides self) (padding self)),
         ''conv_3_1c2'' \<mapsto> Layer (Conv2D (u + 8) (num_filters self) (3, 1) (act self) (strides self) (padding self)),
         ''conv_1d'' \<mapsto> Layer (Conv2D (u + 9) (num_filters self) (1, 1) (act self) (strides self) (padding self)),
         ''maxpool_layer'' \<mapsto> Layer (MaxPool2D (u + 10) (3, 3) (strides self) (padding self)))\<rparr>,
      u + 11)"
  by (simp add: v2_DeepLayer_build_def build_defs uid_offsets)

lemma v2_WideLayer_build_eval:
  "v2_WideLayer_build K self sh u =
     (Inl TypeError,
      self\<lparr>attrs := (attrs self)
        (''conv_1a'' \<mapsto> Layer (Conv2D u (num_filters self) (1, 1) (act self) (strides self * strides self) (padding self)),
         ''conv_1b'' \<mapsto> Layer (Conv2D (u + 1) (num_filters self) (1, 1) (act self) (strides self) (padding self)),
         ''conv_1_3b'' \<mapsto> Layer (Conv2D (u + 2) (num_filters self) (1, 3) (act self) (strides self) (padding self)),
         ''conv_3_1b'' \<mapsto> Layer (Conv2D (u + 3) (num_filters self) (3, 1) (act self) (strides self) (padding self)),
         ''conv_1c'' \<mapsto> Layer (Conv2D (u + 4) (num_filters self) (1, 1) (act self) (strides self) (padding self)),
         ''conv_3c'' \<mapsto> Layer (Conv2D (u + 5) (num_filters self) (3, 3) (act self) (strides self) (padding self)),
         ''conv_1_3c'' \<mapsto> Layer (Conv2D (u + 6) (num_filters self) (1, 3) (act self) (strides self) (padding self)),
         ''conv_3_1c'' \<mapsto> Layer (Conv2D (u + 7) (num_filters self) (3, 1) (act self) (strides self) (padding self)),
         ''conv_1d'' \<mapsto> Layer (Conv2D (u + 8) (num_filters self) (1, 1) (act self) (strides self) (padding self)),
         ''maxpool_layer'' \<mapsto> Layer (MaxPool2D (u + 9) (3, 3) (strides self) (padding self)))\<rparr>,
      u + 10)"
  by (simp add: v2_WideLayer_build_def build_defs uid_offsets)

section \<open>Shapes under "same" padding and stride 1\<close>

lemma window_same_stride_1:
  "0 < fst k \<Longrightarrow> 0 < snd k \<Longrightarrow> window_output_shape k 1 ''same'' b h w c = Inr [b, h, w, c]"
  by (simp add: window_output_shape_def conv_output_length_def)

lemma conv_same_stride_1:
  "0 < f \<Longrightarrow> 0 < kh \<Longrightarrow> 0 < kw \<Longrightarrow>
   keras_shape_run_layer (Conv2D i f (kh, kw) a 1 ''same'') [b, h, w, c] = Inr [b, h, w, nat f]"
  by (simp add: keras_shape_run_layer_def window_same_stride_1)

lemma pool_same_stride_1:
  "0 < kh \<Longrightarrow> 0 < kw \<Longrightarrow>
   keras_shape_run_layer (MaxPool2D i (kh, kw) 1 ''same'') [b, h, w, c] = Inr [b, h, w, c]"
  by (simp add: keras_shape_run_layer_def window_same_stride_1)

lemma concat_channels_4:
  "keras_shape_concatenate [[b, h, w, c1], [b, h, w, c2], [b, h, w, c3], [b, h, w, c4]] (- 1)
     = Inr [b, h, w, c1 + c2 + c3 + c4]"
  by (simp add: keras_shape_concatenate_def same_except_def)

lemma concat_channels_6:
  "keras_shape_concatenate
     [[b, h, w, c1], [b, h, w, c2], [b, h, w, c3], [b, h, w, c4], [b, h, w, c5], [b, h, w, c6]] (- 1)
     = Inr [b, h, w, c1 + c2 + c3 + c4 + c5 + c6]"
  by (simp add: keras_shape_concatenate_def same_except_def)

lemma keras_shapes_simps:
  "run_layer keras_shapes = keras_shape_run_layer"
  "run_concatenate keras_shapes = keras_shape_concatenate"
  "tensor_shape keras_shapes sh = sh"
  by (simp_all add: keras_shapes_def)

lemma v1_BasicLayer_branch_shapes:
  "v1_BasicLayer_branches keras_shapes
     (fst (snd (v1_BasicLayer_build K (v1_BasicLayer_init activation nm) sh u))) [b, h, w, c]
   = Inr [[b, h, w, 64], [b, h, w, 64], [b, h, w, 64], [b, h, w, c]]"
  by (simp add: v1_BasicLayer_build_eval v1_BasicLayer_init_def v1_BasicLayer_branches_def
      call_attr_def propagate_def keras_shapes_simps conv_same_stride_1 pool_same_stride_1)

section \<open>Repeated invocations\<close>

text \<open>
  An instance that is built is never built again. An instance whose \<^verbatim>\<open>build\<close> raises
  stays unbuilt, so every invocation runs \<^verbatim>\<open>build\<close> again and advances the allocation
  counter by the number of operators \<^verbatim>\<open>build\<close> constructs.
\<close>

lemma keras_Layer_invoke_built:
  "built self \<Longrightarrow> keras_Layer_invoke K build call self x u = (call K self x, self, u)"
  by (simp add: keras_Layer_invoke_def)

lemma invoke_repeat_built:
  "built self \<Longrightarrow>
   invoke_repeat (keras_Layer_invoke K build call) n self x u = (replicate n (call K self x), self, u)"
  by (induction n) (simp_all add: keras_Layer_invoke_built replicate_append_same)

lemma keras_Layer_invoke_build_raises:
  assumes "\<not> built self" and "fst (build K self (tensor_shape K x) u) = Inl e"
  shows "keras_Layer_invoke K build call self x u = (Inl e, snd (build K self (tensor_shape K x) u))"
  using assms by (cases "build K self (tensor_shape K x) u") (simp add: keras_Layer_invoke_def)

lemma invoke_repeat_build_raises:
  assumes raises: "\<And>s sh v. fst (build K s sh v) = Inl e"
    and flag: "\<And>s sh v. built (fst (snd (build K s sh v))) = built s"
    and count: "\<And>s sh v. snd (snd (build K s sh v)) = v + k"
    and unbuilt: "\<not> built self"
  shows "fst (invoke_repeat (keras_Layer_invoke K build call) n self x u) = replicate n (Inl e)
       \<and> \<not> built (fst (snd (invoke_repeat (keras_Layer_invoke K build call) n self x u)))
       \<and> snd (snd (invoke_repeat (keras_Layer_invoke K build call) n self x u)) = u + k * n"
  using unbuilt
proof (induction n arbitrary: self u)
  case 0
  then show ?case by simp
next
  case (Suc n)
  let ?b = "build K self (tensor_shape K x) u"
  have step: "keras_Layer_invoke K build call self x u = (Inl e, fst (snd ?b), snd (snd ?b))"
    using keras_Layer_invoke_build_raises[of self build K x u e call] Suc.prems raises by simp
  have nb: "\<not> built (fst (snd ?b))"
    using Suc.prems by (simp add: flag)
  from Suc.IH[OF nb, of "snd (snd ?b)"] show ?case
    by (auto simp: step count split: prod.splits)
qed

lemma v1_BasicLayer_repeat:
  "\<not> built self \<Longrightarrow>
   fst (invoke_repeat (v1_BasicLayer_invoke K) n self x u) = replicate n (Inl TypeError)
   \<and> \<not> built (fst (snd (invoke_repeat (v1_BasicLayer_invoke K) n self x u)))
   \<and> snd (snd (invoke_repeat (v1_BasicLayer_invoke K) n self x u)) = u + 4 * n"
  unfolding v1_BasicLayer_invoke_def
  by (rule invoke_repeat_build_raises) (simp_all add: v1_BasicLayer_build_eval)

lemma v2_BasicLayer_repeat:
  "\<not> built self \<Longrightarrow>
   fst (invoke_repeat (v2_BasicLayer_invoke K) n self x u) = replicate n (Inl TypeError)
   \<and> \<not> built (fst (snd (invoke_repeat (v2_BasicLayer_invoke K) n self x u)))
   \<and> snd (snd (invoke_repeat (v2_BasicLayer_invoke K) n self x u)) = u + 8 * n"
  unfolding v2_BasicLayer_invoke_def
  by (rule invoke_repeat_build_raises) (simp_all add: v2_BasicLayer_build_eval)

lemma v2_WideLayer_repeat:
  "\<not> built self \<Longrightarrow>
   fst (invoke_repeat (v2_WideLayer_invoke K) n self x u) = replicate n (Inl TypeError)
   \<and> \<not> built (fst (snd (invoke_repeat (v2_WideLayer_invoke K) n self x u)))
   \<and> snd (snd (invoke_repeat (v2_WideLayer_invoke K) n self x u)) = u + 10 * n"
  unfolding v2_WideLayer_invoke_def
  by (rule invoke_repeat_build_raises) (simp_all add: v2_WideLayer_build_eval)

lemma v2_DeepLayer_invoke_unbuilt:
  "\<not> built self \<Longrightarrow>
   v2_DeepLayer_invoke K self x u =
     (v2_DeepLayer_call K ((fst (snd (v2_DeepLayer_build K self sh u)))\<lparr>built := True\<rparr>) x,
      (fst (snd (v2_DeepLayer_build K self sh u)))\<lparr>built := True\<rparr>, u + 11)"
  by (simp add: v2_DeepLayer_invoke_def keras_Layer_invoke_def v2_DeepLayer_build_eval)

lemma v2_DeepLayer_repeat_unbuilt:
  assumes "\<not> built self"
  shows "invoke_repeat (v2_DeepLayer_invoke K) (Suc n) self x u =
     (replicate (Suc n) (fst (v2_DeepLayer_invoke K self x u)),
      (fst (snd (v2_DeepLayer_build K self sh u)))\<lparr>built := True\<rparr>, u + 11)"
proof -
  let ?s = "(fst (snd (v2_DeepLayer_build K self sh u)))\<lparr>built := True\<rparr>"
  have b: "built ?s" by simp
  have "invoke_repeat (v2_DeepLayer_invoke K) n ?s x (u + 11)
      = (replicate n (v2_DeepLayer_call K ?s x), ?s, u + 11)"
    unfolding v2_DeepLayer_invoke_def by (rule invoke_repeat_built[OF b])
  then show ?thesis
    by (simp add: v2_DeepLayer_invoke_unbuilt[OF assms, of K x u sh])
qed

section \<open>The Deep Block (V2) end to end\<close>

lemma propagate_simps:
  "propagate (Inr v) f = f v"
  "propagate (Inl e) f = Inl e"
  "propagate (propagate r f) g = propagate r (\<lambda>v. propagate (f v) g)"
  by (simp_all add: propagate_def split: sum.splits)

lemma v2_DeepLayer_invoke_wiring:
  "fst (v2_DeepLayer_invoke K (v2_DeepLayer_init n activation nm) x u) =
     propagate (run_layer K (Conv2D u n (1, 1) activation 1 ''same'') x) (\<lambda>out_a.
     propagate (run_layer K (Conv2D (u + 1) n (1, 1) activation 1 ''same'') x) (\<lambda>b_reduced.
     propagate (run_layer K (Conv2D (u + 2) n (1, 3) activation 1 ''same'') b_reduced) (\<lambda>b_1_3.
     propagate (run_layer K (Conv2D (u + 3) n (3, 1) activation 1 ''same'') b_1_3) (\<lambda>out_b.
     propagate (run_layer K (Conv2D (u + 4) n (1, 1) activation 1 ''same'') x) (\<lambda>c_reduced.
     propagate (run_layer K (Conv2D (u + 5) n (1, 3) activation 1 ''same'') c_reduced) (\<lambda>c_1_3.
     propagate (run_layer K (Conv2D (u + 6) n (3, 1) activation 1 ''same'') c_1_3) (\<lambda>c_3_1.
     propagate (run_layer K (Conv2D (u + 7) n (1, 3) activation 1 ''same'') c_3_1) (\<lambda>c_1_3'.
     propagate (run_layer K (Conv2D (u + 8) n (3, 1) activation 1 ''same'') c_1_3') (\<lambda>out_c.
     propagate (run_layer K (MaxPool2D (u + 10) (3, 3) 1 ''same'') x) (\<lambda>pooled.
     propagate (run_layer K (Conv2D (u + 9) n (1, 1) activation 1 ''same'') pooled) (\<lambda>out_d.
     run_concatenate K [out_a, out_b, out_c, out_d] (- 1))))))))))))"
  by (simp add: v2_DeepLayer_invoke_def keras_Layer_invoke_def v2_DeepLayer_build_eval
      v2_DeepLayer_init_def v2_DeepLayer_call_def v2_DeepLayer_branches_def call_attr_def
      keras_layers_concatenate_def uid_offsets propagate_simps)

lemma v2_DeepLayer_invoke_shape:
  assumes "0 < n"
  shows "fst (v2_DeepLayer_invoke keras_shapes (v2_DeepLayer_init n activation nm) [b, h, w, c] u)
     = Inr [b, h, w, nat (4 * n)]"
proof -
  have "nat n + nat n + nat n + nat n = nat (4 * n)"
    using assms by simp
  then show ?thesis
    using assms
    by (simp add: v2_DeepLayer_invoke_wiring keras_shapes_simps conv_same_stride_1
        pool_same_stride_1 propagate_def concat_channels_4)
qed

section \<open>The branch lists of the Wide Block (V2) and the Reduction Block (V1)\<close>

lemma v2_WideLayer_branches_wiring:
  "v2_WideLayer_branches K
     (fst (snd (v2_WideLayer_build K' (v2_WideLayer_init n activation nm) sh u))) x =
     propagate (run_layer K (Conv2D u n (1, 1) activation 1 ''same'') x) (\<lambda>out_a.
     propagate (run_layer K (Conv2D (u + 1) n (1, 1) activation 1 ''same'') x) (\<lambda>b_reduced.
     propagate (run_layer K (Conv2D (u + 2) n (1, 3) activation 1 ''same'') b_reduced) (\<lambda>out_b1.
     propagate (run_layer K (Conv2D (u + 3) n (3, 1) activation 1 ''same'') b_reduced) (\<lambda>out_b2.
     propagate (run_layer K (Conv2D (u + 4) n (1, 1) activation 1 ''same'') x) (\<lambda>c_reduced.
     propagate (run_layer K (Conv2D (u + 5) n (3, 3) activation 1 ''same'') c_reduced) (\<lambda>c_3_3.
     propagate (run_layer K (Conv2D (u + 6) n (1, 3) activation 1 ''same'') c_3_3) (\<lambda>out_c1.
     propagate (run_layer K (Conv2D (u + 7) n (3, 1) activation 1 ''same'') c_3_3) (\<lambda>out_c2.
     propagate (run_layer K (MaxPool2D (u + 9) (3, 3) 1 ''same'') x) (\<lambda>pooled.
     propagate (run_layer K (Conv2D (u + 8) n (1, 1) activation 1 ''same'') pooled) (\<lambda>out_d.
     Inr [out_a, out_b1, out_b2, out_c1, out_c1, out_d]))))))))))"
  by (simp add: v2_WideLayer_build_eval v2_WideLayer_init_def v2_WideLayer_branches_def
      call_attr_def uid_offsets)

lemma v1_ReductionLayer_branches_wiring:
  "v1_ReductionLayer_branches K
     (fst (snd (v1_ReductionLayer_build K'
        \<lparr>num_filters = 64, act = activation, strides = 1, padding = ''same'', attrs = Map.empty\<rparr>
        sh u))) x =
     propagate (run_layer K (Conv2D u 64 (1, 1) activation 1 ''same'') x) (\<lambda>out_a.
     propagate (run_layer K (Conv2D (u + 1) 64 (1, 1) activation 1 ''same'') x) (\<lambda>b_reduced.
     propagate (run_layer K (Conv2D (u + 4) 64 (3, 3) activation 1 ''same'') b_reduced) (\<lambda>out_b.
     propagate (run_layer K (Conv2D (u + 2) 64 (1, 1) activation 1 ''same'') x) (\<lambda>c_reduced.
     propagate (run_layer K (Conv2D (u + 5) 64 (5, 5) activation 1 ''same'') c_reduced) (\<lambda>out_c.
     propagate (run_layer K (MaxPool2D (u + 6) (3, 3) 1 ''same'') x) (\<lambda>pooled.
     propagate (run_layer K (Conv2D (u + 3) 64 (1, 1) activation 1 ''same'') pooled) (\<lambda>out_d.
     Inr [out_a, out_b, out_c, out_d])))))))"
  by (simp add: v1_ReductionLayer_build_eval v1_ReductionLayer_branches_def
      call_attr_def uid_offsets)

section \<open>The Basic Block (V1): which operators the forward pass applies\<close>



text \<open>
  Claim C1. The forward pass of the Basic Block (V1) should apply the 1x1, the 3x3 and
  the 5x5 convolution and the max-pool to the same input and concatenate the results in
  this order. On a default instance and an input of shape \<open>(1, 32, 32, 3)\<close> the code
  does not: invoking the block raises TypeError in \<^verbatim>\<open>build\<close>, and the list \<^verbatim>\<open>call\<close>
  puts together holds the 1x1 convolution's output in third place, where the output of
  the 5x5 convolution (identity 2) belongs.
\<close>

theorem v1_BasicLayer_skips_conv_block_c_example:
  "fst (v1_BasicLayer_invoke keras_graphs (v1_BasicLayer_init ''relu'' None) (Input [1, 32, 32, 3]) 0)
     = Inl TypeError
   \<and> v1_BasicLayer_branches keras_graphs
        (fst (snd (v1_BasicLayer_build keras_graphs (v1_BasicLayer_init ''relu'' None) [1, 32, 32, 3] 0)))
        (Input [1, 32, 32, 3])
      = Inr [Apply (Conv2D 0 64 (1, 1) ''relu'' 1 ''same'') (Input [1, 32, 32, 3]),
             Apply (Conv2D 1 64 (3, 3) ''relu'' 1 ''same'') (Input [1, 32, 32, 3]),
             Apply (Conv2D 0 64 (1, 1) ''relu'' 1 ''same'') (Input [1, 32, 32, 3]),
             Apply (MaxPool2D 3 (3, 3) 1 ''same'') (Input [1, 32, 32, 3])]
   \<and> v1_BasicLayer_branches keras_graphs
        (fst (snd (v1_BasicLayer_build keras_graphs (v1_BasicLayer_init ''relu'' None) [1, 32, 32, 3] 0)))
        (Input [1, 32, 32, 3])
      \<noteq> Inr [Apply (Conv2D 0 64 (1, 1) ''relu'' 1 ''same'') (Input [1, 32, 32, 3]),
             Apply (Conv2D 1 64 (3, 3) ''relu'' 1 ''same'') (Input [1, 32, 32, 3]),
             Apply (Conv2D 2 64 (5, 5) ''relu'' 1 ''same'') (Input [1, 32, 32, 3]),
             Apply (MaxPool2D 3 (3, 3) 1 ''same'') (Input [1, 32, 32, 3])]"
  by (simp add: v1_BasicLayer_invoke_def keras_Layer_invoke_def v1_BasicLayer_build_eval
      v1_BasicLayer_init_def v1_BasicLayer_branches_def call_attr_def propagate_def keras_graphs_def)

section \<open>The Basic Block (V1): channels of the output\<close>

text \<open>
  Claim C2 says that the forward pass of the Basic Block (V1) returns 256 channels for
  every input of shape \<open>(batch, H, W, C)\<close>, and shape \<open>(1, 32, 32, 256)\<close> for an input
  of shape \<open>(1, 32, 32, 3)\<close>. The pooling branch has no convolution after it and keeps
  the \<open>C\<close> channels of the input: for an input of shape \<open>(1, 32, 32, 3)\<close> the four
  branch outputs have 64, 64, 64 and 3 channels, and their concatenation along the last
  axis has 195.
\<close>

theorem v1_BasicLayer_256_channels_counterexample:
  "v1_BasicLayer_branches keras_shapes
     (fst (snd (v1_BasicLayer_build keras_shapes (v1_BasicLayer_init ''relu'' None) [1, 32, 32, 3] 0)))
     [1, 32, 32, 3]
   = Inr [[1, 32, 32, 64], [1, 32, 32, 64], [1, 32, 32, 64], [1, 32, 32, 3]]
   \<and> keras_shape_concatenate [[1, 32, 32, 64], [1, 32, 32, 64], [1, 32, 32, 64], [1, 32, 32, 3]] (- 1)
     = Inr [1, 32, 32, 195]
   \<and> fst (v1_BasicLayer_invoke keras_shapes (v1_BasicLayer_init ''relu'' None) [1, 32, 32, 3] 0)
     \<noteq> Inr [1, 32, 32, 256]"
proof (intro conjI)
  show "v1_BasicLayer_branches keras_shapes
     (fst (snd (v1_BasicLayer_build keras_shapes (v1_BasicLayer_init ''relu'' None) [1, 32, 32, 3] 0)))
     [1, 32, 32, 3]
   = Inr [[1, 32, 32, 64], [1, 32, 32, 64], [1, 32, 32, 64], [1, 32, 32, 3]]"
    by (rule v1_BasicLayer_branch_shapes)
  show "keras_shape_concatenate
      [[1, 32, 32, 64], [1, 32, 32, 64], [1, 32, 32, 64], [1, 32, 32, 3]] (- 1)
     = Inr [1, 32, 32, 195]"
    by (simp add: concat_channels_4)
  show "fst (v1_BasicLayer_invoke keras_shapes (v1_BasicLayer_init ''relu'' None) [1, 32, 32, 3] 0)
     \<noteq> Inr [1, 32, 32, 256]"
    by (simp add: v1_BasicLayer_invoke_def keras_Layer_invoke_def v1_BasicLayer_build_eval
        v1_BasicLayer_init_def)
qed

text \<open>
  Claim C2 as amended: for every input of shape \<open>(batch, H, W, C)\<close>, the four branch
  outputs that the forward pass of the Basic Block (V1) hands to the concatenation have
  the shapes \<open>(batch, H, W, 64)\<close>, \<open>(batch, H, W, 64)\<close>, \<open>(batch, H, W, 64)\<close> and
  \<open>(batch, H, W, C)\<close>, and their concatenation along the channel axis has the shape
  \<open>(batch, H, W, 192 + C)\<close>.
\<close>

theorem v1_BasicLayer_output_channels:
  "v1_BasicLayer_branches keras_shapes
     (fst (snd (v1_BasicLayer_build keras_shapes (v1_BasicLayer_init activation nm) sh u)))
     [b, h, w, c]
   = Inr [[b, h, w, 64], [b, h, w, 64], [b, h, w, 64], [b, h, w, c]]
   \<and> keras_shape_concatenate [[b, h, w, 64], [b, h, w, 64], [b, h, w, 64], [b, h, w, c]] (- 1)
     = Inr [b, h, w, 192 + c]"
  by (simp add: v1_BasicLayer_branch_shapes concat_channels_4)

theorem v1_BasicLayer_output_channels_witness:
  "v1_BasicLayer_branches keras_shapes
     (fst (snd (v1_BasicLayer_build keras_shapes (v1_BasicLayer_init ''relu'' None) [2, 8, 8, 16] 0)))
     [2, 8, 8, 16]
   = Inr [[2, 8, 8, 64], [2, 8, 8, 64], [2, 8, 8, 64], [2, 8, 8, 16 :: nat]]
   \<and> keras_shape_concatenate [[2, 8, 8, 64], [2, 8, 8, 64], [2, 8, 8, 64], [2, 8, 8, 16]] (- 1)
     = Inr [2, 8, 8, 208]"
  using v1_BasicLayer_output_channels [of "''relu''" None "[2, 8, 8, 16]" 0 2 8 8 16]
  by simp

section \<open>The Deep Block (V2): branches and channels\<close>

text \<open>
  Claim C6. Invoking a new Deep Block (V2) on an input \<open>x\<close> builds its eleven operators,
  every one with stride 1 and "same" padding, and returns the concatenation along the
  last axis of four branches: A, a 1x1 convolution of \<open>x\<close>; B, a 1x1 convolution of \<open>x\<close>
  followed by a 1x3 and then a 3x1 convolution; C, a 1x1 convolution of \<open>x\<close> followed by
  a 1x3, a 3x1, a 1x3 and a 3x1 convolution; D, a 3x3 max-pool of \<open>x\<close> followed by a 1x1
  convolution. On an input of shape \<open>(batch, H, W, C)\<close> the result has the shape
  \<open>(batch, H, W, 4 * num_filters)\<close>, which is 112 channels for the default of 28 filters.
\<close>

theorem v2_DeepLayer_forward:
  "fst (v2_DeepLayer_invoke K (v2_DeepLayer_init n activation nm) x u) =
     propagate (run_layer K (Conv2D u n (1, 1) activation 1 ''same'') x) (\<lambda>out_a.
     propagate (run_layer K (Conv2D (u + 1) n (1, 1) activation 1 ''same'') x) (\<lambda>b_reduced.
     propagate (run_layer K (Conv2D (u + 2) n (1, 3) activation 1 ''same'') b_reduced) (\<lambda>b_1_3.
     propagate (run_layer K (Conv2D (u + 3) n (3, 1) activation 1 ''same'') b_1_3) (\<lambda>out_b.
     propagate (run_layer K (Conv2D (u + 4) n (1, 1) activation 1 ''same'') x) (\<lambda>c_reduced.
     propagate (run_layer K (Conv2D (u + 5) n (1, 3) activation 1 ''same'') c_reduced) (\<lambda>c_1_3.
     propagate (run_layer K (Conv2D (u + 6) n (3, 1) activation 1 ''same'') c_1_3) (\<lambda>c_3_1.
     propagate (run_layer K (Conv2D (u + 7) n (1, 3) activation 1 ''same'') c_3_1) (\<lambda>c_1_3'.
     propagate (run_layer K (Conv2D (u + 8) n (3, 1) activation 1 ''same'') c_1_3') (\<lambda>out_c.
     propagate (run_layer K (MaxPool2D (u + 10) (3, 3) 1 ''same'') x) (\<lambda>pooled.
     propagate (run_layer K (Conv2D (u + 9) n (1, 1) activation 1 ''same'') pooled) (\<lambda>out_d.
     run_concatenate K [out_a, out_b, out_c, out_d] (- 1))))))))))))
   \<and> (0 < n \<longrightarrow>
        fst (v2_DeepLayer_invoke keras_shapes (v2_DeepLayer_init n activation nm) [b, h, w, c] u)
          = Inr [b, h, w, nat (4 * n)])
   \<and> fst (v2_DeepLayer_invoke keras_shapes (v2_DeepLayer_init 28 activation nm) [b, h, w, c] u)
        = Inr [b, h, w, 112]"
proof (intro conjI impI)
  show "0 < n \<Longrightarrow>
      fst (v2_DeepLayer_invoke keras_shapes (v2_DeepLayer_init n activation nm) [b, h, w, c] u)
        = Inr [b, h, w, nat (4 * n)]"
    by (rule v2_DeepLayer_invoke_shape)
  show "fst (v2_DeepLayer_invoke keras_shapes (v2_DeepLayer_init 28 activation nm) [b, h, w, c] u)
        = Inr [b, h, w, 112]"
    using v2_DeepLayer_invoke_shape[of 28 activation nm b h w c u] by simp
qed (rule v2_DeepLayer_invoke_wiring)

text \<open>
  The witness: the dataflow graph of a default instance on an input of shape
  \<open>(1, 32, 32, 3)\<close>, and the shape of its result.
\<close>

theorem v2_DeepLayer_forward_witness:
  "fst (v2_DeepLayer_invoke keras_graphs (v2_DeepLayer_init 28 ''relu'' None) (Input [1, 32, 32, 3]) 0) =
     Inr (Concat
       [Apply (Conv2D 0 28 (1, 1) ''relu'' 1 ''same'') (Input [1, 32, 32, 3]),
        Apply (Conv2D 3 28 (3, 1) ''relu'' 1 ''same'')
         (Apply (Conv2D 2 28 (1, 3) ''relu'' 1 ''same'')
           (Apply (Conv2D 1 28 (1, 1) ''relu'' 1 ''same'') (Input [1, 32, 32, 3]))),
        Apply (Conv2D 8 28 (3, 1) ''relu'' 1 ''same'')
         (Apply (Conv2D 7 28 (1, 3) ''relu'' 1 ''same'')
           (Apply (Conv2D 6 28 (3, 1) ''relu'' 1 ''same'')
             (Apply (Conv2D 5 28 (1, 3) ''relu'' 1 ''same'')
               (Apply (Conv2D 4 28 (1, 1) ''relu'' 1 ''same'') (Input [1, 32, 32, 3]))))),
        Apply (Conv2D 9 28 (1, 1) ''relu'' 1 ''same'')
         (Apply (MaxPool2D 10 (3, 3) 1 ''same'') (Input [1, 32, 32, 3]))]
       (- 1))
   \<and> (0::int) < 28
   \<and> fst (v2_DeepLayer_invoke keras_shapes (v2_DeepLayer_init 28 ''relu'' None) [1, 32, 32, 3] 0)
        = Inr [1, 32, 32, 112]"
proof -
  have g: "run_layer keras_graphs = (\<lambda>l g. Inr (Apply l g))"
    "run_concatenate keras_graphs = (\<lambda>gs axis. Inr (Concat gs axis))"
    by (simp_all add: keras_graphs_def)
  from v2_DeepLayer_forward[of keras_graphs 28 "''relu''" None "Input [1, 32, 32, 3]" 0 1 32 32 3]
  show ?thesis
    by (simp add: g propagate_def)
qed

section \<open>Which blocks can complete a forward call\<close>

lemma v1_ReductionLayer_call_unassigned_concatenate:
  "attrs s ''concatenate'' = None \<Longrightarrow>
   v1_ReductionLayer_call K s x =
     propagate (v1_ReductionLayer_branches K s x) (\<lambda>outs. Inl AttributeError)"
  by (simp add: v1_ReductionLayer_call_def call_attr_list_def)

lemma v1_ReductionLayer_invoke_repeat:
  "invoke_repeat (v1_ReductionLayer_invoke K) n s x u = (replicate n (Inl TypeError), s, u)"
  by (induction n) (simp_all add: v1_ReductionLayer_invoke_def)

text \<open>
  Claim C4 says of four classes, \<^verbatim>\<open>ReductionLayer\<close> (V1) among them, that every forward
  call triggers \<^verbatim>\<open>build\<close> and raises the error of \<^verbatim>\<open>build\<close>. \<^verbatim>\<open>ReductionLayer\<close> names
  no base class, so nothing runs its \<^verbatim>\<open>build\<close>: invoking a default instance on an input
  of shape \<open>(1, 32, 32, 3)\<close> raises TypeError (the object is not callable) and leaves
  the instance without attributes and the allocation counter at 0, where \<^verbatim>\<open>build\<close>
  would have constructed seven operators and assigned \<^verbatim>\<open>conv_1a\<close>; and \<^verbatim>\<open>call\<close> on
  that instance raises AttributeError, not the TypeError of \<^verbatim>\<open>build\<close>.
\<close>

theorem v1_ReductionLayer_forward_runs_no_build_counterexample:
  "v1_ReductionLayer_init ''relu'' None
     = Inr \<lparr>num_filters = 64, act = ''relu'', strides = 1, padding = ''same'',
            attrs = (Map.empty :: string \<rightharpoonup> (string, shape) attr)\<rparr>
   \<and> v1_ReductionLayer_invoke keras_shapes
        \<lparr>num_filters = 64, act = ''relu'', strides = 1, padding = ''same'',
         attrs = (Map.empty :: string \<rightharpoonup> (string, shape) attr)\<rparr> [1, 32, 32, 3] 0
     = (Inl TypeError,
        \<lparr>num_filters = 64, act = ''relu'', strides = 1, padding = ''same'',
         attrs = (Map.empty :: string \<rightharpoonup> (string, shape) attr)\<rparr>, 0)
   \<and> v1_ReductionLayer_call keras_shapes
        \<lparr>num_filters = 64, act = ''relu'', strides = 1, padding = ''same'',
         attrs = (Map.empty :: string \<rightharpoonup> (string, shape) attr)\<rparr> [1, 32, 32, 3]
     = Inl AttributeError
   \<and> snd (snd (v1_ReductionLayer_build keras_shapes
        \<lparr>num_filters = 64, act = ''relu'', strides = 1, padding = ''same'',
         attrs = (Map.empty :: string \<rightharpoonup> (string, shape) attr)\<rparr> [1, 32, 32, 3] 0))
     = 7
   \<and> attrs (fst (snd (v1_ReductionLayer_build keras_shapes
        \<lparr>num_filters = 64, act = ''relu'', strides = 1, padding = ''same'',
         attrs = (Map.empty :: string \<rightharpoonup> (string, shape) attr)\<rparr> [1, 32, 32, 3] 0)))
        ''conv_1a''
     = Some (Layer (Conv2D 0 64 (1, 1) ''relu'' 1 ''same''))"
proof (intro conjI)
  show "v1_ReductionLayer_init ''relu'' None
     = Inr \<lparr>num_filters = 64, act = ''relu'', strides = 1, padding = ''same'',
            attrs = (Map.empty :: string \<rightharpoonup> (string, shape) attr)\<rparr>"
    by (simp add: v1_ReductionLayer_init_def truthy_def)
  show "v1_ReductionLayer_call keras_shapes
        \<lparr>num_filters = 64, act = ''relu'', strides = 1, padding = ''same'',
         attrs = (Map.empty :: string \<rightharpoonup> (string, shape) attr)\<rparr> [1, 32, 32, 3]
     = Inl AttributeError"
    by (simp add: v1_ReductionLayer_call_def v1_ReductionLayer_branches_def call_attr_def
        propagate_simps)
qed (simp_all add: v1_ReductionLayer_invoke_def v1_ReductionLayer_build_eval)

text \<open>
  Claim C4 as amended. In \<^verbatim>\<open>BasicLayer\<close> (V1), \<^verbatim>\<open>ReductionLayer\<close> (V1), \<^verbatim>\<open>BasicLayer\<close>
  (V2) and \<^verbatim>\<open>WideLayer\<close> (V2) the last statement of \<^verbatim>\<open>build\<close> calls the functional
  concatenation with an axis and no list of tensors: \<^verbatim>\<open>build\<close> raises TypeError on
  every instance, whatever the framework computes. For the two \<^verbatim>\<open>BasicLayer\<close> classes
  and \<^verbatim>\<open>WideLayer\<close> every invocation of a new instance, however often repeated, runs
  \<^verbatim>\<open>build\<close> and raises that TypeError before anything is concatenated. A forward call
  of a \<^verbatim>\<open>ReductionLayer\<close> never runs \<^verbatim>\<open>build\<close>: invoking the instance raises TypeError
  and changes nothing, \<^verbatim>\<open>call\<close> on a new instance raises AttributeError, and since
  neither \<^verbatim>\<open>__init__\<close> nor \<^verbatim>\<open>build\<close> assigns \<^verbatim>\<open>concatenate\<close>, \<^verbatim>\<open>call\<close> raises also
  after \<^verbatim>\<open>build\<close> was run by hand: an error of a branch, or else AttributeError. Only
  \<^verbatim>\<open>DeepLayer\<close>, which hands its four branch outputs to the concatenation inside
  \<^verbatim>\<open>call\<close>, completes a forward call: on shapes it returns
  \<open>(batch, H, W, 4 * num_filters)\<close>.
\<close>

theorem build_raises_except_in_DeepLayer:
  fixes K :: "('act, 't) backend"
  shows
    "fst (v1_BasicLayer_build K self sh u) = Inl TypeError
   \<and> fst (v1_ReductionLayer_build K rself sh u) = Inl TypeError
   \<and> fst (v2_BasicLayer_build K self sh u) = Inl TypeError
   \<and> fst (v2_WideLayer_build K self sh u) = Inl TypeError
   \<and> fst (invoke_repeat (v1_BasicLayer_invoke K) n (v1_BasicLayer_init activation nm) x u)
        = replicate n (Inl TypeError)
   \<and> fst (invoke_repeat (v2_BasicLayer_invoke K) n (v2_BasicLayer_init f activation nm) x u)
        = replicate n (Inl TypeError)
   \<and> fst (invoke_repeat (v2_WideLayer_invoke K) n (v2_WideLayer_init f activation nm) x u)
        = replicate n (Inl TypeError)
   \<and> invoke_repeat (v1_ReductionLayer_invoke K) n rself x u
        = (replicate n (Inl TypeError), rself, u)
   \<and> (\<forall>s :: ('act, 't) block.
          v1_ReductionLayer_init activation nm = Inr s \<longrightarrow>
            attrs s = Map.empty \<and> v1_ReductionLayer_call K s x = Inl AttributeError)
   \<and> (\<forall>s :: ('act, 't) block. attrs s ''concatenate'' = None \<longrightarrow>
          v1_ReductionLayer_call K s x
            = propagate (v1_ReductionLayer_branches K s x) (\<lambda>outs. Inl AttributeError)
        \<and> attrs (fst (snd (v1_ReductionLayer_build K s sh u))) ''concatenate'' = None)
   \<and> (0 < f \<longrightarrow>
        fst (v2_DeepLayer_invoke keras_shapes (v2_DeepLayer_init f activation nm) [b, h, w, c] u)
          = Inr [b, h, w, nat (4 * f)])"
proof (intro conjI allI impI)
  show "fst (v1_BasicLayer_build K self sh u) = Inl TypeError"
    by (simp add: v1_BasicLayer_build_eval)
  show "fst (v1_ReductionLayer_build K rself sh u) = Inl TypeError"
    by (simp add: v1_ReductionLayer_build_eval)
  show "fst (v2_BasicLayer_build K self sh u) = Inl TypeError"
    by (simp add: v2_BasicLayer_build_eval)
  show "fst (v2_WideLayer_build K self sh u) = Inl TypeError"
    by (simp add: v2_WideLayer_build_eval)
  show "fst (invoke_repeat (v1_BasicLayer_invoke K) n (v1_BasicLayer_init activation nm) x u)
        = replicate n (Inl TypeError)"
    using v1_BasicLayer_repeat[of "v1_BasicLayer_init activation nm" K n x u]
    by (simp add: v1_BasicLayer_init_def)
  show "fst (invoke_repeat (v2_BasicLayer_invoke K) n (v2_BasicLayer_init f activation nm) x u)
        = replicate n (Inl TypeError)"
    using v2_BasicLayer_repeat[of "v2_BasicLayer_init f activation nm" K n x u]
    by (simp add: v2_BasicLayer_init_def)
  show "fst (invoke_repeat (v2_WideLayer_invoke K) n (v2_WideLayer_init f activation nm) x u)
        = replicate n (Inl TypeError)"
    using v2_WideLayer_repeat[of "v2_WideLayer_init f activation nm" K n x u]
    by (simp add: v2_WideLayer_init_def)
  show "invoke_repeat (v1_ReductionLayer_invoke K) n rself x u
        = (replicate n (Inl TypeError), rself, u)"
    by (rule v1_ReductionLayer_invoke_repeat)
  show "attrs s = Map.empty" if "v1_ReductionLayer_init activation nm = Inr s"
    for s :: "('act, 't) block"
    using that by (auto simp: v1_ReductionLayer_init_def split: if_splits)
  show "v1_ReductionLayer_call K s x = Inl AttributeError"
    if "v1_ReductionLayer_init activation nm = Inr s" for s :: "('act, 't) block"
  proof -
    from that have "attrs s = Map.empty"
      by (auto simp: v1_ReductionLayer_init_def split: if_splits)
    then show ?thesis
      by (simp add: v1_ReductionLayer_call_def v1_ReductionLayer_branches_def call_attr_def
          propagate_simps)
  qed
  show "v1_ReductionLayer_call K s x
            = propagate (v1_ReductionLayer_branches K s x) (\<lambda>outs. Inl AttributeError)"
    if "attrs s ''concatenate'' = None" for s :: "('act, 't) block"
    using that by (rule v1_ReductionLayer_call_unassigned_concatenate)
  show "attrs (fst (snd (v1_ReductionLayer_build K s sh u))) ''concatenate'' = None"
    if "attrs s ''concatenate'' = None" for s :: "('act, 't) block"
    using that by (simp add: v1_ReductionLayer_build_eval)
  show "fst (v2_DeepLayer_invoke keras_shapes (v2_DeepLayer_init f activation nm) [b, h, w, c] u)
          = Inr [b, h, w, nat (4 * f)]" if "0 < f"
    using that by (rule v2_DeepLayer_invoke_shape)
qed

theorem build_raises_except_in_DeepLayer_witness:
  "fst (invoke_repeat (v1_BasicLayer_invoke keras_shapes) 3
         (v1_BasicLayer_init ''relu'' None) [1, 32, 32, 3] 0)
     = [Inl TypeError, Inl TypeError, Inl TypeError]
   \<and> fst (invoke_repeat (v2_WideLayer_invoke keras_shapes) 3
         (v2_WideLayer_init 28 ''relu'' None) [1, 32, 32, 3] 0)
     = [Inl TypeError, Inl TypeError, Inl TypeError]
   \<and> v1_ReductionLayer_init ''relu'' None
     = Inr \<lparr>num_filters = 64, act = ''relu'', strides = 1, padding = ''same'',
            attrs = (Map.empty :: string \<rightharpoonup> (string, shape) attr)\<rparr>
   \<and> v1_ReductionLayer_call keras_shapes
        \<lparr>num_filters = 64, act = ''relu'', strides = 1, padding = ''same'',
         attrs = (Map.empty :: string \<rightharpoonup> (string, shape) attr)\<rparr> [1, 32, 32, 3]
     = Inl AttributeError
   \<and> v1_ReductionLayer_call keras_shapes
        (fst (snd (v1_ReductionLayer_build keras_shapes
           \<lparr>num_filters = 64, act = ''relu'', strides = 1, padding = ''same'',
            attrs = (Map.empty :: string \<rightharpoonup> (string, shape) attr)\<rparr> [1, 32, 32, 3] 0)))
        [1, 32, 32, 3]
     = Inl AttributeError
   \<and> (0::int) < 28
   \<and> fst (v2_DeepLayer_invoke keras_shapes (v2_DeepLayer_init 28 ''relu'' None) [1, 32, 32, 3] 0)
     = Inr [1, 32, 32, 112]"
proof -
  let ?r = "\<lparr>num_filters = 64, act = ''relu'', strides = 1, padding = ''same'',
            attrs = (Map.empty :: string \<rightharpoonup> (string, shape) attr)\<rparr>"
  let ?rb = "fst (snd (v1_ReductionLayer_build keras_shapes ?r [1, 32, 32, 3] 0))"
  have i: "v1_ReductionLayer_init ''relu'' None = Inr ?r"
    by (simp add: v1_ReductionLayer_init_def truthy_def)
  have three: "replicate 3 x = [x, x, x]" for x :: "error + shape"
    by (simp add: numeral_3_eq_3)
  have nc: "attrs ?rb ''concatenate'' = None"
    by (simp add: v1_ReductionLayer_build_eval)
  have br: "v1_ReductionLayer_branches keras_shapes ?rb [1, 32, 32, 3]
      = Inr [[1, 32, 32, 64], [1, 32, 32, 64], [1, 32, 32, 64], [1, 32, 32, 64]]"
    by (simp add: v1_ReductionLayer_branches_wiring keras_shapes_simps conv_same_stride_1
        pool_same_stride_1 propagate_simps)
  note t = build_raises_except_in_DeepLayer
    [where K = "keras_shapes :: (string, shape) backend" and n = 3 and activation = "''relu''"
       and nm = None and x = "[1, 32, 32, 3]" and u = 0 and f = 28 and b = 1 and h = 32
       and w = 32 and c = 3 and sh = "[1, 32, 32, 3]" and rself = ?r
       and self = "v1_BasicLayer_init ''relu'' None"]
  from t nc have "v1_ReductionLayer_call keras_shapes ?rb [1, 32, 32, 3]
      = propagate (v1_ReductionLayer_branches keras_shapes ?rb [1, 32, 32, 3])
          (\<lambda>outs. Inl AttributeError)"
    by blast
  then have built_call: "v1_ReductionLayer_call keras_shapes ?rb [1, 32, 32, 3] = Inl AttributeError"
    by (simp only: br propagate_simps)
  from t i have new_call: "v1_ReductionLayer_call keras_shapes ?r [1, 32, 32, 3] = Inl AttributeError"
    by blast
  from t have rest:
    "fst (invoke_repeat (v1_BasicLayer_invoke keras_shapes) 3
         (v1_BasicLayer_init ''relu'' None) [1, 32, 32, 3] 0) = replicate 3 (Inl TypeError)"
    "fst (invoke_repeat (v2_WideLayer_invoke keras_shapes) 3
         (v2_WideLayer_init 28 ''relu'' None) [1, 32, 32, 3] 0) = replicate 3 (Inl TypeError)"
    "fst (v2_DeepLayer_invoke keras_shapes (v2_DeepLayer_init 28 ''relu'' None) [1, 32, 32, 3] 0)
       = Inr [1, 32, 32, nat (4 * 28)]"
    by simp_all
  show ?thesis
    using i built_call new_call rest by (simp add: three)
qed

section \<open>Invoking a block again\<close>

lemma invoke_repeat_same_result_build_raises:
  assumes raises: "\<And>s sh v. fst (build K s sh v) = Inl e"
    and flag: "\<And>s sh v. built (fst (snd (build K s sh v))) = built s"
    and count: "\<And>s sh v. snd (snd (build K s sh v)) = v + k"
  shows "fst (invoke_repeat (keras_Layer_invoke K build call) n self x u)
     = replicate n (fst (keras_Layer_invoke K build call self x u))"
proof (cases "built self")
  case True
  then show ?thesis
    by (simp add: invoke_repeat_built keras_Layer_invoke_built)
next
  case False
  have "fst (keras_Layer_invoke K build call self x u) = Inl e"
    using keras_Layer_invoke_build_raises[of self build K x u e call] False raises by simp
  moreover have "fst (invoke_repeat (keras_Layer_invoke K build call) n self x u) = replicate n (Inl e)"
    using invoke_repeat_build_raises[of build K e k self call n x u] raises flag count False
    by blast
  ultimately show ?thesis by simp
qed

lemma v2_DeepLayer_repeat_same_result:
  "fst (invoke_repeat (v2_DeepLayer_invoke K) n self x u)
     = replicate n (fst (v2_DeepLayer_invoke K self x u))"
proof (cases "built self")
  case True
  then show ?thesis
    by (simp add: v2_DeepLayer_invoke_def invoke_repeat_built keras_Layer_invoke_built)
next
  case False
  show ?thesis
  proof (cases n)
    case 0
    then show ?thesis by simp
  next
    case (Suc m)
    then show ?thesis
      using v2_DeepLayer_repeat_unbuilt[OF False, of K m x u "tensor_shape K x"] by simp
  qed
qed

text \<open>
  Claim C8. For every block instance and every input, invoking the forward pass again
  with the same input yields the same outcome every time: \<open>n\<close> invocations in a row
  yield \<open>n\<close> times the outcome of the first one. The framework's operators are functions
  of the operator and its input (the weights do not change between the invocations);
  what the theorem adds is that the state a block keeps between invocations, the
  operators of its lazy build and its \<open>built\<close> flag, does not change the outcome. For
  the blocks whose \<^verbatim>\<open>build\<close> raises, the common outcome is that TypeError.
\<close>

theorem forward_repeated_same_result:
  fixes K :: "('act, 't) backend"
  shows
    "fst (invoke_repeat (v1_BasicLayer_invoke K) n self x u)
       = replicate n (fst (v1_BasicLayer_invoke K self x u))
   \<and> fst (invoke_repeat (v2_BasicLayer_invoke K) n self x u)
       = replicate n (fst (v2_BasicLayer_invoke K self x u))
   \<and> fst (invoke_repeat (v2_DeepLayer_invoke K) n self x u)
       = replicate n (fst (v2_DeepLayer_invoke K self x u))
   \<and> fst (invoke_repeat (v2_WideLayer_invoke K) n self x u)
       = replicate n (fst (v2_WideLayer_invoke K self x u))
   \<and> fst (invoke_repeat (\<lambda>s y v. (v1_ReductionLayer_call K s y, s, v)) n rself x u)
       = replicate n (v1_ReductionLayer_call K rself x)"
proof (intro conjI)
  show "fst (invoke_repeat (v1_BasicLayer_invoke K) n self x u)
       = replicate n (fst (v1_BasicLayer_invoke K self x u))"
    unfolding v1_BasicLayer_invoke_def
    by (rule invoke_repeat_same_result_build_raises[where e = TypeError and k = 4])
      (simp_all add: v1_BasicLayer_build_eval)
  show "fst (invoke_repeat (v2_BasicLayer_invoke K) n self x u)
       = replicate n (fst (v2_BasicLayer_invoke K self x u))"
    unfolding v2_BasicLayer_invoke_def
    by (rule invoke_repeat_same_result_build_raises[where e = TypeError and k = 8])
      (simp_all add: v2_BasicLayer_build_eval)
  show "fst (invoke_repeat (v2_WideLayer_invoke K) n self x u)
       = replicate n (fst (v2_WideLayer_invoke K self x u))"
    unfolding v2_WideLayer_invoke_def
    by (rule invoke_repeat_same_result_build_raises[where e = TypeError and k = 10])
      (simp_all add: v2_WideLayer_build_eval)
  show "fst (invoke_repeat (v2_DeepLayer_invoke K) n self x u)
       = replicate n (fst (v2_DeepLayer_invoke K self x u))"
    by (rule v2_DeepLayer_repeat_same_result)
  show "fst (invoke_repeat (\<lambda>s y v. (v1_ReductionLayer_call K s y, s, v)) n rself x u)
       = replicate n (v1_ReductionLayer_call K rself x)"
    by (induction n) (simp_all add: case_prod_beta)
qed

theorem forward_repeated_same_result_witness:
  "fst (invoke_repeat (v2_DeepLayer_invoke keras_shapes) 2
          (v2_DeepLayer_init 28 ''relu'' None) [1, 32, 32, 3] 0)
     = [Inr [1, 32, 32, 112], Inr [1, 32, 32, 112]]
   \<and> fst (invoke_repeat (v1_BasicLayer_invoke keras_shapes) 2
          (v1_BasicLayer_init ''relu'' None) [1, 32, 32, 3] 0)
     = [Inl TypeError, Inl TypeError]"
proof -
  have two: "replicate 2 r = [r, r]" for r :: "error + shape"
    by (simp add: numeral_2_eq_2)
  have d: "fst (v2_DeepLayer_invoke keras_shapes (v2_DeepLayer_init 28 ''relu'' None) [1, 32, 32, 3] 0)
      = Inr [1, 32, 32, 112]"
    using v2_DeepLayer_invoke_shape[of 28 "''relu''" None 1 32 32 3 0] by simp
  have b: "fst (v1_BasicLayer_invoke keras_shapes (v1_BasicLayer_init ''relu'' None) [1, 32, 32, 3] 0)
      = Inl TypeError"
    by (simp add: v1_BasicLayer_invoke_def keras_Layer_invoke_def v1_BasicLayer_build_eval
        v1_BasicLayer_init_def)
  from forward_repeated_same_result
    [where K = "keras_shapes :: (string, shape) backend" and n = 2 and x = "[1, 32, 32, 3]"
       and u = 0, of "v2_DeepLayer_init 28 ''relu'' None"]
    forward_repeated_same_result
    [where K = "keras_shapes :: (string, shape) backend" and n = 2 and x = "[1, 32, 32, 3]"
       and u = 0, of "v1_BasicLayer_init ''relu'' None"]
  show ?thesis
    using d b by (simp add: two)
qed

text \<open>
  Claim C9. The operators of a block should be constructed once, on the first
  invocation, and never again. A Deep Block (V2) does so: after any number of
  invocations the allocation counter has advanced by its eleven operators. A Basic
  Block (V1) does not: \<^verbatim>\<open>build\<close> raises at its last statement, the instance is never
  marked built, and every invocation constructs four new operators; after two
  invocations of a default instance \<^verbatim>\<open>conv_block_a\<close> holds the operator with identity 4,
  not the one with identity 0 that the first invocation constructed.
\<close>

theorem v1_BasicLayer_rebuilt_on_every_invocation:
  fixes K :: "('act, 't) backend"
  shows
  "snd (snd (invoke_repeat (v1_BasicLayer_invoke K) n (v1_BasicLayer_init activation nm) x u))
     = u + 4 * n
   \<and> attrs (fst (snd (invoke_repeat (v1_BasicLayer_invoke keras_shapes) 1
        (v1_BasicLayer_init ''relu'' None) [1, 32, 32, 3] 0))) ''conv_block_a''
     = Some (Layer (Conv2D 0 64 (1, 1) ''relu'' 1 ''same''))
   \<and> attrs (fst (snd (invoke_repeat (v1_BasicLayer_invoke keras_shapes) 2
        (v1_BasicLayer_init ''relu'' None) [1, 32, 32, 3] 0))) ''conv_block_a''
     = Some (Layer (Conv2D 4 64 (1, 1) ''relu'' 1 ''same''))
   \<and> snd (snd (invoke_repeat (v2_DeepLayer_invoke K) (Suc n) (v2_DeepLayer_init f activation nm) x u))
     = u + 11"
proof (intro conjI)
  show "snd (snd (invoke_repeat (v1_BasicLayer_invoke K) n (v1_BasicLayer_init activation nm) x u))
     = u + 4 * n"
    using v1_BasicLayer_repeat[of "v1_BasicLayer_init activation nm" K n x u]
    by (simp add: v1_BasicLayer_init_def)
  show "attrs (fst (snd (invoke_repeat (v1_BasicLayer_invoke keras_shapes) 1
        (v1_BasicLayer_init ''relu'' None) [1, 32, 32, 3] 0))) ''conv_block_a''
     = Some (Layer (Conv2D 0 64 (1, 1) ''relu'' 1 ''same''))"
    by (simp add: v1_BasicLayer_invoke_def keras_Layer_invoke_def v1_BasicLayer_build_eval
        v1_BasicLayer_init_def)
  show "attrs (fst (snd (invoke_repeat (v1_BasicLayer_invoke keras_shapes) 2
        (v1_BasicLayer_init ''relu'' None) [1, 32, 32, 3] 0))) ''conv_block_a''
     = Some (Layer (Conv2D 4 64 (1, 1) ''relu'' 1 ''same''))"
    by (simp add: numeral_2_eq_2 v1_BasicLayer_invoke_def keras_Layer_invoke_def
        v1_BasicLayer_build_eval v1_BasicLayer_init_def)
  show "snd (snd (invoke_repeat (v2_DeepLayer_invoke K) (Suc n) (v2_DeepLayer_init f activation nm) x u))
     = u + 11"
  proof -
    have "\<not> built (v2_DeepLayer_init f activation nm :: ('act, 't) keras_block)"
      by (simp add: v2_DeepLayer_init_def)
    from v2_DeepLayer_repeat_unbuilt[OF this, of K n x u "[]"] show ?thesis
      by simp
  qed
qed

section \<open>The Wide Block (V2), the Reduction Block (V1) and the shape of the output\<close>

text \<open>
  Claim C3. The forward pass of the Wide Block (V2) should return the concatenation of
  the six branch outputs [A, B1, B2, C1, C1, D], 168 channels for the default of 28
  filters. The list \<^verbatim>\<open>call\<close> puts together is that list (the output of the 1x3
  convolution of branch C twice, the output of its 3x1 sibling computed and dropped),
  and on an input of shape \<open>(batch, H, W, C)\<close> its six elements have 28 channels each,
  168 together. But no invocation gets that far: invoking a new Wide Block raises
  TypeError in \<^verbatim>\<open>build\<close>, for every number of filters, input and framework.
\<close>

theorem v2_WideLayer_forward_raises:
  fixes K :: "('act, 't) backend"
  shows
    "fst (v2_WideLayer_invoke K (v2_WideLayer_init n activation nm) x u) = Inl TypeError
   \<and> v2_WideLayer_branches K
        (fst (snd (v2_WideLayer_build K (v2_WideLayer_init n activation nm) sh u))) x =
       propagate (run_layer K (Conv2D u n (1, 1) activation 1 ''same'') x) (\<lambda>out_a.
       propagate (run_layer K (Conv2D (u + 1) n (1, 1) activation 1 ''same'') x) (\<lambda>b_reduced.
       propagate (run_layer K (Conv2D (u + 2) n (1, 3) activation 1 ''same'') b_reduced) (\<lambda>out_b1.
       propagate (run_layer K (Conv2D (u + 3) n (3, 1) activation 1 ''same'') b_reduced) (\<lambda>out_b2.
       propagate (run_layer K (Conv2D (u + 4) n (1, 1) activation 1 ''same'') x) (\<lambda>c_reduced.
       propagate (run_layer K (Conv2D (u + 5) n (3, 3) activation 1 ''same'') c_reduced) (\<lambda>c_3_3.
       propagate (run_layer K (Conv2D (u + 6) n (1, 3) activation 1 ''same'') c_3_3) (\<lambda>out_c1.
       propagate (run_layer K (Conv2D (u + 7) n (3, 1) activation 1 ''same'') c_3_3) (\<lambda>out_c2.
       propagate (run_layer K (MaxPool2D (u + 9) (3, 3) 1 ''same'') x) (\<lambda>pooled.
       propagate (run_layer K (Conv2D (u + 8) n (1, 1) activation 1 ''same'') pooled) (\<lambda>out_d.
       Inr [out_a, out_b1, out_b2, out_c1, out_c1, out_d]))))))))))
   \<and> v2_WideLayer_branches keras_shapes
        (fst (snd (v2_WideLayer_build keras_shapes (v2_WideLayer_init 28 activation nm) sh u)))
        [b, h, w, c]
       = Inr [[b, h, w, 28], [b, h, w, 28], [b, h, w, 28], [b, h, w, 28], [b, h, w, 28],
              [b, h, w, 28]]
   \<and> keras_shape_concatenate
        [[b, h, w, 28], [b, h, w, 28], [b, h, w, 28], [b, h, w, 28], [b, h, w, 28], [b, h, w, 28]]
        (- 1) = Inr [b, h, w, 168]
   \<and> fst (v2_WideLayer_invoke keras_shapes (v2_WideLayer_init 28 ''relu'' None) [1, 32, 32, 3] 0)
       \<noteq> Inr [1, 32, 32, 168]"
proof (intro conjI)
  show r: "fst (v2_WideLayer_invoke K (v2_WideLayer_init n activation nm) x u) = Inl TypeError"
    for K :: "('a, 'b) backend" and n activation nm x u
    by (simp add: v2_WideLayer_invoke_def keras_Layer_invoke_def v2_WideLayer_build_eval
        v2_WideLayer_init_def)
  show "v2_WideLayer_branches keras_shapes
        (fst (snd (v2_WideLayer_build keras_shapes (v2_WideLayer_init 28 activation nm) sh u)))
        [b, h, w, c]
       = Inr [[b, h, w, 28], [b, h, w, 28], [b, h, w, 28], [b, h, w, 28], [b, h, w, 28],
              [b, h, w, 28]]"
    by (simp add: v2_WideLayer_branches_wiring keras_shapes_simps conv_same_stride_1
        pool_same_stride_1 propagate_simps)
  show "keras_shape_concatenate
        [[b, h, w, 28], [b, h, w, 28], [b, h, w, 28], [b, h, w, 28], [b, h, w, 28], [b, h, w, 28]]
        (- 1) = Inr [b, h, w, 168]"
    by (simp add: concat_channels_6)
  show "fst (v2_WideLayer_invoke keras_shapes (v2_WideLayer_init 28 ''relu'' None) [1, 32, 32, 3] 0)
       \<noteq> Inr [1, 32, 32, 168]"
    by (simp add: r)
qed (rule v2_WideLayer_branches_wiring)

text \<open>
  Claim C5. The forward pass of the Reduction Block (V1) should return the concatenation
  of A, a 1x1 convolution of the input; B, a 1x1 followed by a 3x3 convolution; C, a 1x1
  followed by a 5x5 convolution; D, a 3x3 max-pool followed by a 1x1 convolution: 256
  channels. The list \<^verbatim>\<open>call\<close> puts together is that list, and on shapes its four
  elements have 64 channels each. But \<^verbatim>\<open>call\<close> never returns it: on a new instance it
  raises AttributeError (nothing has run \<^verbatim>\<open>build\<close>), \<^verbatim>\<open>build\<close> itself raises TypeError,
  and after a \<^verbatim>\<open>build\<close> that raised \<^verbatim>\<open>call\<close> still raises AttributeError, for the
  attribute \<^verbatim>\<open>concatenate\<close> was never assigned. Constructing an instance with a name
  raises TypeError.
\<close>

theorem v1_ReductionLayer_forward_raises:
  fixes K :: "('act, 't) backend"
  shows
    "v1_ReductionLayer_init activation None
       = Inr (\<lparr>num_filters = 64, act = activation, strides = 1, padding = ''same'',
               attrs = Map.empty\<rparr> :: ('act, 't) block)
   \<and> v1_ReductionLayer_init activation (Some ''reduction'') = (Inl TypeError :: error + ('act, 't) block)
   \<and> v1_ReductionLayer_call K
        \<lparr>num_filters = 64, act = activation, strides = 1, padding = ''same'', attrs = Map.empty\<rparr> x
       = Inl AttributeError
   \<and> fst (v1_ReductionLayer_build K
        \<lparr>num_filters = 64, act = activation, strides = 1, padding = ''same'', attrs = Map.empty\<rparr>
        sh u) = Inl TypeError
   \<and> v1_ReductionLayer_branches K
        (fst (snd (v1_ReductionLayer_build K
           \<lparr>num_filters = 64, act = activation, strides = 1, padding = ''same'', attrs = Map.empty\<rparr>
           sh u))) x =
       propagate (run_layer K (Conv2D u 64 (1, 1) activation 1 ''same'') x) (\<lambda>out_a.
       propagate (run_layer K (Conv2D (u + 1) 64 (1, 1) activation 1 ''same'') x) (\<lambda>b_reduced.
       propagate (run_layer K (Conv2D (u + 4) 64 (3, 3) activation 1 ''same'') b_reduced) (\<lambda>out_b.
       propagate (run_layer K (Conv2D (u + 2) 64 (1, 1) activation 1 ''same'') x) (\<lambda>c_reduced.
       propagate (run_layer K (Conv2D (u + 5) 64 (5, 5) activation 1 ''same'') c_reduced) (\<lambda>out_c.
       propagate (run_layer K (MaxPool2D (u + 6) (3, 3) 1 ''same'') x) (\<lambda>pooled.
       propagate (run_layer K (Conv2D (u + 3) 64 (1, 1) activation 1 ''same'') pooled) (\<lambda>out_d.
       Inr [out_a, out_b, out_c, out_d])))))))
   \<and> v1_ReductionLayer_branches keras_shapes
        (fst (snd (v1_ReductionLayer_build keras_shapes
           \<lparr>num_filters = 64, act = activation, strides = 1, padding = ''same'', attrs = Map.empty\<rparr>
           sh u))) [b, h, w, c]
       = Inr [[b, h, w, 64], [b, h, w, 64], [b, h, w, 64], [b, h, w, 64]]
   \<and> keras_shape_concatenate [[b, h, w, 64], [b, h, w, 64], [b, h, w, 64], [b, h, w, 64]] (- 1)
       = Inr [b, h, w, 256]
   \<and> v1_ReductionLayer_call keras_shapes
        (fst (snd (v1_ReductionLayer_build keras_shapes
           \<lparr>num_filters = 64, act = activation, strides = 1, padding = ''same'', attrs = Map.empty\<rparr>
           sh u))) [b, h, w, c]
       = Inl AttributeError"
proof (intro conjI)
  show "v1_ReductionLayer_init activation None
       = Inr (\<lparr>num_filters = 64, act = activation, strides = 1, padding = ''same'',
               attrs = Map.empty\<rparr> :: ('act, 't) block)"
    by (simp add: v1_ReductionLayer_init_def truthy_def)
  show "v1_ReductionLayer_init activation (Some ''reduction'') = (Inl TypeError :: error + ('act, 't) block)"
    by (simp add: v1_ReductionLayer_init_def truthy_def)
  show "v1_ReductionLayer_call K
        \<lparr>num_filters = 64, act = activation, strides = 1, padding = ''same'', attrs = Map.empty\<rparr> x
       = Inl AttributeError"
    by (simp add: v1_ReductionLayer_call_def v1_ReductionLayer_branches_def call_attr_def
        propagate_simps)
  show "fst (v1_ReductionLayer_build K
        \<lparr>num_filters = 64, act = activation, strides = 1, padding = ''same'', attrs = Map.empty\<rparr>
        sh u) = Inl TypeError"
    by (simp add: v1_ReductionLayer_build_eval)
  show s: "v1_ReductionLayer_branches keras_shapes
        (fst (snd (v1_ReductionLayer_build keras_shapes
           \<lparr>num_filters = 64, act = activation, strides = 1, padding = ''same'', attrs = Map.empty\<rparr>
           sh u))) [b, h, w, c]
       = Inr [[b, h, w, 64], [b, h, w, 64], [b, h, w, 64], [b, h, w, 64]]"
    by (simp add: v1_ReductionLayer_branches_wiring keras_shapes_simps conv_same_stride_1
        pool_same_stride_1 propagate_simps)
  show "keras_shape_concatenate [[b, h, w, 64], [b, h, w, 64], [b, h, w, 64], [b, h, w, 64]] (- 1)
       = Inr [b, h, w, 256]"
    by (simp add: concat_channels_4)
  show "v1_ReductionLayer_call keras_shapes
        (fst (snd (v1_ReductionLayer_build keras_shapes
           \<lparr>num_filters = 64, act = activation, strides = 1, padding = ''same'', attrs = Map.empty\<rparr>
           sh u))) [b, h, w, c]
       = Inl AttributeError"
    unfolding v1_ReductionLayer_call_def s
    by (simp add: propagate_simps call_attr_list_def v1_ReductionLayer_build_eval)
qed (rule v1_ReductionLayer_branches_wiring)

text \<open>
  Claim C7. Every block type should map an input of shape \<open>(batch, H, W, C)\<close> to an
  output of shape \<open>(batch, H, W, F)\<close>, \<open>F\<close> the sum of the channels of its branches. On
  an input of shape \<open>(1, 32, 32, 3)\<close> only the Deep Block does: the Basic Blocks and the
  Wide Block raise TypeError and the Reduction Block raises AttributeError.
\<close>

theorem forward_shape_at_1_32_32_3:
  "fst (v1_BasicLayer_invoke keras_shapes (v1_BasicLayer_init ''relu'' None) [1, 32, 32, 3] 0)
     = Inl TypeError
   \<and> fst (v2_BasicLayer_invoke keras_shapes (v2_BasicLayer_init 28 ''relu'' None) [1, 32, 32, 3] 0)
     = Inl TypeError
   \<and> fst (v2_WideLayer_invoke keras_shapes (v2_WideLayer_init 28 ''relu'' None) [1, 32, 32, 3] 0)
     = Inl TypeError
   \<and> v1_ReductionLayer_call keras_shapes
        \<lparr>num_filters = 64, act = ''relu'', strides = 1, padding = ''same'', attrs = Map.empty\<rparr>
        [1, 32, 32, 3]
     = Inl AttributeError
   \<and> fst (v2_DeepLayer_invoke keras_shapes (v2_DeepLayer_init 28 ''relu'' None) [1, 32, 32, 3] 0)
     = Inr [1, 32, 32, 112]"
proof (intro conjI)
  show "fst (v2_DeepLayer_invoke keras_shapes (v2_DeepLayer_init 28 ''relu'' None) [1, 32, 32, 3] 0)
     = Inr [1, 32, 32, 112]"
    using v2_DeepLayer_invoke_shape[of 28 "''relu''" None 1 32 32 3 0] by simp
  show "v1_ReductionLayer_call keras_shapes
        \<lparr>num_filters = 64, act = ''relu'', strides = 1, padding = ''same'', attrs = Map.empty\<rparr>
        [1, 32, 32, 3]
     = Inl AttributeError"
    by (simp add: v1_ReductionLayer_call_def v1_ReductionLayer_branches_def call_attr_def
        propagate_simps)
qed (simp_all add: v1_BasicLayer_invoke_def v2_BasicLayer_invoke_def v2_WideLayer_invoke_def
      keras_Layer_invoke_def v1_BasicLayer_build_eval v2_BasicLayer_build_eval
      v2_WideLayer_build_eval v1_BasicLayer_init_def v2_BasicLayer_init_def v2_WideLayer_init_def)

end
